theory Spec2Isabelle
  imports Main
begin

section \<open>Data model of \<open>inline_bots/bot_attach_web_view.cpp\<close>\<close>

text \<open>
  The class \<open>AttachWebView\<close> is a callback-driven state machine running on one thread.
  Its member variables, and the collaborators it talks to (the request API, the data
  session, the local trust storage, the layer of boxes, the process-wide set
  \<open>ActiveWebViews()\<close>), are the fields of one record \<open>state\<close>.  Every member function
  is a function on that record.  Every lambda handed to a collaborator is a value of a
  datatype (its captured variables are the constructor's arguments) and runs when the
  matching event is delivered by \<open>step\<close>.  A violated \<open>Expects\<close> and a dereferenced null
  pointer are the error results \<open>ExpectsFailed\<close> and \<open>NullDereference\<close>.
\<close>

type_synonym mtpRequestId = nat
type_synonym UserId = nat
type_synonym DocumentId = nat
type_synonym controller = nat

datatype error = ExpectsFailed | NullDereference

text \<open>A \<open>PeerData*\<close>; a \<open>UserData*\<close> is the \<open>UserId\<close> of a \<open>UserPeer\<close>.\<close>

datatype PeerData = UserPeer UserId | OtherPeer nat

fun asUser :: "PeerData \<Rightarrow> UserId option" where
  "asUser (UserPeer u) = Some u"
| "asUser (OtherPeer c) = None"

record BotInfo =
  supportsAttachMenu :: bool
  botMenuButtonUrl :: string
  botMenuButtonText :: string

text \<open>\<open>UserData\<close>: \<open>botInfo\<close> is a null pointer unless the user is a bot.\<close>

record UserData =
  isLoaded :: bool
  username :: string
  name :: string
  verified :: bool
  botInfo :: "BotInfo option"

definition isBot :: "UserData \<Rightarrow> bool" where
  "isBot u = (botInfo u \<noteq> None)"

definition isVerified :: "UserData \<Rightarrow> bool" where
  "isVerified u = verified u"

record WebViewButton =
  b_text :: string
  b_startCommand :: string
  b_url :: string

record AttachWebViewBot =
  awb_user :: UserId
  awb_icon :: "DocumentId option"
  awb_media :: "DocumentId option"
  awb_name :: string
  awb_inactive :: bool

text \<open>\<open>MTPDattachMenuBot\<close>: the icons are pairs of a name and a document.\<close>

record MTPattachMenuBot =
  vbot_id :: UserId
  vshort_name :: string
  vicons :: "(string \<times> DocumentId) list"
  is_inactive :: bool

datatype Flag = f_theme_params | f_url | f_start_param | f_from_bot_menu
  | f_reply_to_msg_id | f_silent

datatype MTPrequest =
    MTPmessages_RequestWebView "Flag list" PeerData UserId string string string
  | MTPmessages_RequestSimpleWebView "Flag list" UserId string string
  | MTPmessages_ProlongWebView "Flag list" PeerData UserId nat nat
  | MTPmessages_SendWebViewData UserId nat string string
  | MTPmessages_GetAttachMenuBots nat
  | MTPmessages_GetAttachMenuBot UserId
  | MTPmessages_ToggleBotInAttachMenu UserId bool
  | MTPcontacts_ResolveUsername string

datatype MTPresult =
    MTPwebViewResultUrl nat string
  | MTPsimpleWebViewResultUrl string
  | MTPcontacts_resolvedPeer "(UserId \<times> UserData) list" "nat list" "PeerData option"
  | MTPattachMenuBotsNotModified
  | MTPattachMenuBots nat "MTPattachMenuBot list" "(UserId \<times> UserData) list"
  | MTPattachMenuBotsBot MTPattachMenuBot "(UserId \<times> UserData) list"
  | MTPbool
  | MTPupdates

record MTPerror =
  error_type :: string
  error_code :: int

text \<open>The phrases of \<open>lang_keys.h\<close> this file shows, with their arguments.\<close>

datatype lang_text =
    lng_allow_bot_webview string
  | lng_bot_add_to_menu string
  | lng_bot_menu_not_supported
  | lng_bot_menu_already_added
  | lng_username_not_found string
  | lng_bot_remove_from_menu_done
  | lng_bot_add_to_menu_done

subsection \<open>Closures\<close>

text \<open>
  \<open>Open_lambda\<close> is the lambda \<open>open\<close> of \<open>requestAddToMenu\<close> (captures \<open>contextPeer\<close>,
  \<open>bot\<close>, \<open>startCommand\<close>).  The callbacks given to \<open>toggleInMenu\<close> are the lambda of
  \<open>removeFromMenu\<close> and the lambda of \<open>confirmAddToMenu\<close> (captures \<open>callback\<close>).
  The continuations given to \<open>confirmOpen\<close> are the lambdas of the three open variants.
\<close>

datatype open_lambda = Open_lambda "PeerData option" "UserId option" string

datatype toggle_callback =
    RemoveFromMenu_callback
  | ConfirmAddToMenu_callback "open_lambda option"

datatype open_done =
    Request_done WebViewButton
  | RequestSimple_done WebViewButton
  | RequestMenu_done string string

datatype resolve_done = Resolve_done

text \<open>The done and fail handlers of a sent request, named after the request.\<close>

datatype handler =
    RequestWebView_handler WebViewButton
  | RequestSimpleWebView_handler WebViewButton
  | RequestMenu_handler string
  | ResolveUsername_handler string resolve_done
  | GetAttachMenuBots_handler
  | GetAttachMenuBot_handler
  | ToggleBotInAttachMenu_handler "toggle_callback option"
  | ProlongWebView_handler
  | SendWebViewData_handler

text \<open>
  A confirm box on the layer of a window: the consent prompt of \<open>confirmOpen\<close> and the
  prompt of \<open>confirmAddToMenu\<close>, each with its text and what its callback captured.
\<close>

datatype box =
    ConfirmOpenBox controller lang_text open_done
  | ConfirmAddBox controller lang_text AttachWebViewBot "open_lambda option"

fun box_controller :: "box \<Rightarrow> controller" where
  "box_controller (ConfirmOpenBox c t d) = c"
| "box_controller (ConfirmAddBox c t b cb) = c"

text \<open>
  What the panel's \<open>lifetime()\<close> owns after \<open>started\<close>: the subscription to
  \<open>webViewResultSent\<close> filtered by the query id, and the timer \<open>base::timer_each\<close> with
  its period in milliseconds and the query id its lambda captured.
\<close>

datatype subscription = WebViewResultSent_filter nat | Timer_each nat nat

text \<open>
  \<open>Ui::BotWebView::Panel\<close> as \<open>show\<close> builds it.  \<open>p_queryId\<close> and \<open>p_buttonText\<close> are the
  captures of its \<open>sendData\<close> callback.
\<close>

record Panel =
  p_url :: string
  p_title :: UserId
  p_bottom :: string
  p_queryId :: nat
  p_buttonText :: string
  lifetime :: "subscription list"

datatype effect =
    Send mtpRequestId MTPrequest
  | RequestActivate
  | ShowMultilineToast lang_text
  | AttachBotsUpdates_fire

text \<open>
  Modelled from the spec: the data session is the local cache of identities.  It holds
  one \<open>UserData\<close> for every id, the peers it knows (searched by \<open>peerByUsername\<close>), the
  chats it has ingested, and the documents forced to cache and saved.
\<close>

record Data_Session =
  users :: "UserId \<Rightarrow> UserData"
  known_peers :: "PeerData list"
  chats :: "nat list"
  forcedToCache :: "DocumentId list"
  saved :: "DocumentId list"

record state =
  m_peer :: "PeerData option"
  m_bot :: "UserId option"
  m_botUsername :: string
  m_startCommand :: string
  m_requestId :: mtpRequestId
  m_prolongId :: mtpRequestId
  m_panel :: "Panel option"
  m_botsRequestId :: mtpRequestId
  m_botsHash :: nat
  m_attachBots :: "AttachWebViewBot list"
  m_addToMenuStartCommand :: string
  m_addToMenuPeer :: "PeerData option"
  m_addToMenuBot :: "UserId option"
  m_addToMenuId :: mtpRequestId
  m_confirmAddBox :: "box option"
  m_replyToMsgId :: nat
  self :: nat
  ActiveWebViews :: "nat set"
  api_count :: nat
  api_pending :: "(mtpRequestId \<times> handler) list"
  trace :: "effect list"
  session_data :: Data_Session
  trustedOpenWebView :: "UserId set"
  boxes :: "box list"
  activeWindow :: "controller option"
  webViewParams :: string

subsection \<open>Collaborators\<close>

definition kProlongTimeout :: nat where
  "kProlongTimeout = 60 * 1000"

text \<open>
  Modelled from the spec: a request handle is an opaque, cancellable token.  Sending
  gives a new non-zero id and keeps the handlers until the request completes or is
  cancelled; cancelling drops the handlers, so that neither can run.  The id 0 stands
  for no request, and cancelling it does nothing.
\<close>

definition api_request :: "MTPrequest \<Rightarrow> handler \<Rightarrow> state \<Rightarrow> mtpRequestId \<times> state" where
  "api_request r h s =
     (Suc (api_count s),
      s\<lparr>api_count := Suc (api_count s),
        api_pending := api_pending s @ [(Suc (api_count s), h)],
        trace := trace s @ [Send (Suc (api_count s)) r]\<rparr>)"

definition api_cancel :: "mtpRequestId \<Rightarrow> state \<Rightarrow> state" where
  "api_cancel i s =
     (if i = 0 then s
      else s\<lparr>api_pending := filter (\<lambda>p. fst p \<noteq> i) (api_pending s)\<rparr>)"

definition emit :: "effect \<Rightarrow> state \<Rightarrow> state" where
  "emit e s = s\<lparr>trace := trace s @ [e]\<rparr>"

definition toLower_char :: "char \<Rightarrow> char" where
  "toLower_char c =
     (case map_of (zip ''ABCDEFGHIJKLMNOPQRSTUVWXYZ'' ''abcdefghijklmnopqrstuvwxyz'') c of
        Some l \<Rightarrow> l
      | None \<Rightarrow> c)"

definition toLower :: "string \<Rightarrow> string" where
  "toLower str = map toLower_char str"

definition userLoaded :: "Data_Session \<Rightarrow> UserId \<Rightarrow> UserId option" where
  "userLoaded d i = (if isLoaded (users d i) then Some i else None)"

fun processUsers :: "(UserId \<times> UserData) list \<Rightarrow> Data_Session \<Rightarrow> Data_Session" where
  "processUsers [] d = d"
| "processUsers ((i, u) # us) d =
     processUsers us
       (d\<lparr>users := (users d)(i := u\<lparr>isLoaded := True\<rparr>),
          known_peers := (if UserPeer i \<in> set (known_peers d) then known_peers d
                          else known_peers d @ [UserPeer i])\<rparr>)"

definition processChats :: "nat list \<Rightarrow> Data_Session \<Rightarrow> Data_Session" where
  "processChats cs d = d\<lparr>chats := chats d @ cs\<rparr>"

definition peer_username :: "Data_Session \<Rightarrow> PeerData \<Rightarrow> string" where
  "peer_username d p = (case p of UserPeer i \<Rightarrow> username (users d i) | OtherPeer c \<Rightarrow> [])"

definition peerByUsername :: "Data_Session \<Rightarrow> string \<Rightarrow> PeerData option" where
  "peerByUsername d uname =
     find (\<lambda>p. toLower (peer_username d p) = toLower uname) (known_peers d)"

definition hideLayer :: "controller \<Rightarrow> state \<Rightarrow> state" where
  "hideLayer c s = s\<lparr>boxes := filter (\<lambda>b. box_controller b \<noteq> c) (boxes s)\<rparr>"

definition show_box :: "box \<Rightarrow> state \<Rightarrow> state" where
  "show_box b s = s\<lparr>boxes := boxes s @ [b]\<rparr>"

section \<open>The member functions\<close>

text \<open>
  The overloads of \<open>request\<close> are \<open>request_username\<close> (peer, username, start
  parameter), \<open>request\<close> (controller, peer, bot, button) and \<open>request_button\<close>
  (button); those of \<open>requestSimple\<close> are \<open>requestSimple\<close> and
  \<open>requestSimple_button\<close>; \<open>show\<close> is \<open>show_panel\<close>.  The done and fail lambdas of
  the request a function sends are named after the function, with \<open>_done\<close> and
  \<open>_fail\<close>.  The menu item \<open>BotAction\<close> and \<open>MakeAttachBotsMenu\<close> only paint and
  call \<open>removeFromMenu\<close> and \<open>request\<close> with a null controller, which are events
  below.  One orchestrator is modelled, so \<open>ClearAll\<close>, which calls \<open>cancel\<close> on every
  member of \<open>ActiveWebViews\<close>, and the panel's \<open>handleLocalUri\<close>, which may call
  the same \<open>close\<close> as the panel does, add no function of their own.
\<close>

subsection \<open>\<open>ResolveIcon\<close> and \<open>ParseAttachBot\<close>\<close>

fun ResolveIcon :: "(string \<times> DocumentId) list \<Rightarrow> DocumentId option" where
  "ResolveIcon [] = None"
| "ResolveIcon ((n, doc) # icons) =
     (if n = ''default_static'' then Some doc else ResolveIcon icons)"

definition ParseAttachBot ::
  "Data_Session \<Rightarrow> MTPattachMenuBot \<Rightarrow> AttachWebViewBot option \<times> Data_Session" where
  "ParseAttachBot d mbot =
     (let result =
        (case userLoaded d (vbot_id mbot) of
           None \<Rightarrow> None
         | Some user \<Rightarrow>
             (case botInfo (users d user) of
                None \<Rightarrow> None
              | Some info \<Rightarrow>
                  if supportsAttachMenu info
                  then Some \<lparr>awb_user = user, awb_icon = ResolveIcon (vicons mbot),
                         awb_media = None, awb_name = vshort_name mbot,
                         awb_inactive = is_inactive mbot\<rparr>
                  else None))
      in case result of
           None \<Rightarrow> (None, d)
         | Some r \<Rightarrow>
             (case awb_icon r of
                None \<Rightarrow> (Some r, d)
              | Some icon \<Rightarrow> (Some r, d\<lparr>forcedToCache := forcedToCache d @ [icon]\<rparr>)))"

subsection \<open>\<open>cancel\<close>\<close>

definition cancel :: "state \<Rightarrow> state" where
  "cancel s =
     (let s1 = s\<lparr>ActiveWebViews := ActiveWebViews s - {self s}\<rparr>;
          s2 = api_cancel (m_requestId s1) (s1\<lparr>m_requestId := 0\<rparr>);
          s3 = api_cancel (m_prolongId s2) (s2\<lparr>m_prolongId := 0\<rparr>)
      in s3\<lparr>m_panel := None, m_peer := None, m_bot := None,
            m_botUsername := [], m_startCommand := []\<rparr>)"

subsection \<open>\<open>requestBots\<close> and its handlers\<close>

definition requestBots :: "state \<Rightarrow> state" where
  "requestBots s =
     (if m_botsRequestId s \<noteq> 0 then s
      else let (i, s1) = api_request (MTPmessages_GetAttachMenuBots (m_botsHash s))
                           GetAttachMenuBots_handler s
           in s1\<lparr>m_botsRequestId := i\<rparr>)"

text \<open>The loop over \<open>data.vbots()\<close> in the done handler; it pushes the active bots.\<close>

fun requestBots_loop ::
  "MTPattachMenuBot list \<Rightarrow> Data_Session \<Rightarrow> AttachWebViewBot list
     \<Rightarrow> AttachWebViewBot list \<times> Data_Session" where
  "requestBots_loop [] d acc = (acc, d)"
| "requestBots_loop (mbot # bots) d acc =
     (case ParseAttachBot d mbot of
        (None, d1) \<Rightarrow> requestBots_loop bots d1 acc
      | (Some parsed, d1) \<Rightarrow>
          if \<not> awb_inactive parsed
          then (case awb_icon parsed of
                  Some icon \<Rightarrow>
                    requestBots_loop bots (d1\<lparr>saved := saved d1 @ [icon]\<rparr>)
                      (acc @ [parsed\<lparr>awb_media := Some icon\<rparr>])
                | None \<Rightarrow> requestBots_loop bots d1 (acc @ [parsed]))
          else requestBots_loop bots d1 acc)"

definition requestBots_done :: "MTPresult \<Rightarrow> state \<Rightarrow> state" where
  "requestBots_done result s =
     (let s1 = s\<lparr>m_botsRequestId := 0\<rparr>
      in case result of
           MTPattachMenuBots hash bots vusers \<Rightarrow>
             (let d1 = processUsers vusers (session_data s1);
                  (parsed, d2) = requestBots_loop bots d1 []
              in emit AttachBotsUpdates_fire
                   (s1\<lparr>session_data := d2, m_botsHash := hash, m_attachBots := parsed\<rparr>))
         | _ \<Rightarrow> s1)"

definition requestBots_fail :: "state \<Rightarrow> state" where
  "requestBots_fail s = s\<lparr>m_botsRequestId := 0\<rparr>"

subsection \<open>\<open>show\<close>, \<open>started\<close> and the lambdas they install\<close>

definition started :: "nat \<Rightarrow> state \<Rightarrow> error + state" where
  "started queryId s =
     (if m_peer s = None \<or> m_bot s = None then Inl ExpectsFailed
      else case m_panel s of
             None \<Rightarrow> Inl NullDereference
           | Some p \<Rightarrow>
               Inr (s\<lparr>m_panel := Some (p\<lparr>lifetime := lifetime p @
                      [WebViewResultSent_filter queryId,
                       Timer_each kProlongTimeout queryId]\<rparr>)\<rparr>))"

text \<open>The lambda of \<open>base::timer_each\<close> in \<open>started\<close>; it captures \<open>queryId\<close>.\<close>

definition prolong_tick :: "nat \<Rightarrow> state \<Rightarrow> error + state" where
  "prolong_tick queryId s =
     (let s1 = api_cancel (m_prolongId s) (s\<lparr>m_prolongId := 0\<rparr>)
      in case m_peer s1 of
           None \<Rightarrow> Inl NullDereference
         | Some p \<Rightarrow>
             (case m_bot s1 of
                None \<Rightarrow> Inl NullDereference
              | Some b \<Rightarrow>
                  (let (i, s2) = api_request
                         (MTPmessages_ProlongWebView [f_reply_to_msg_id, f_silent] p b queryId
                            (m_replyToMsgId s1))
                         ProlongWebView_handler s1
                   in Inr (s2\<lparr>m_prolongId := i\<rparr>))))"

definition prolong_done :: "state \<Rightarrow> state" where
  "prolong_done s = s\<lparr>m_prolongId := 0\<rparr>"

text \<open>
  The lambda \<open>sendData\<close> of \<open>show\<close>; it captures \<open>queryId\<close> and \<open>buttonText\<close>, and takes the
  data and the value \<open>base::RandomValue\<close> gives.
\<close>

definition sendData :: "nat \<Rightarrow> string \<Rightarrow> string \<Rightarrow> nat \<Rightarrow> state \<Rightarrow> error + state" where
  "sendData queryId buttonText dat randomId s =
     (if m_peer s \<noteq> map_option UserPeer (m_bot s) \<or> queryId \<noteq> 0 then Inr s
      else case m_bot s of
             None \<Rightarrow> Inl NullDereference
           | Some b \<Rightarrow>
               (let (i, s1) = api_request
                      (MTPmessages_SendWebViewData b randomId buttonText dat)
                      SendWebViewData_handler s
                in Inr (cancel s1)))"

definition show_panel :: "nat \<Rightarrow> string \<Rightarrow> string \<Rightarrow> state \<Rightarrow> error + state" where
  "show_panel queryId url buttonText s =
     (case m_bot s of
        None \<Rightarrow> Inl ExpectsFailed
      | Some b \<Rightarrow>
          (case m_peer s of
             None \<Rightarrow> Inl ExpectsFailed
           | Some p \<Rightarrow>
               started queryId
                 (s\<lparr>ActiveWebViews := insert (self s) (ActiveWebViews s),
                    m_panel := Some \<lparr>p_url = url, p_title = b,
                      p_bottom = CHR ''@'' # username (users (session_data s) b),
                      p_queryId = queryId, p_buttonText = buttonText,
                      lifetime = []\<rparr>\<rparr>)))"

subsection \<open>The three open requests and their handlers\<close>

definition request_button :: "WebViewButton \<Rightarrow> state \<Rightarrow> error + state" where
  "request_button button s =
     (case m_peer s of
        None \<Rightarrow> Inl ExpectsFailed
      | Some p \<Rightarrow>
          (case m_bot s of
             None \<Rightarrow> Inl ExpectsFailed
           | Some b \<Rightarrow>
               (let s1 = s\<lparr>m_startCommand := b_startCommand button\<rparr>;
                    flags = [f_theme_params]
                      @ (if b_url button = [] then [] else [f_url])
                      @ (if m_startCommand s1 = [] then [] else [f_start_param]);
                    (i, s2) = api_request
                      (MTPmessages_RequestWebView flags p b (b_url button)
                         (m_startCommand s1) (webViewParams s1))
                      (RequestWebView_handler button) s1
                in Inr (s2\<lparr>m_requestId := i\<rparr>))))"

definition request_button_done :: "WebViewButton \<Rightarrow> MTPresult \<Rightarrow> state \<Rightarrow> error + state" where
  "request_button_done button result s =
     (let s1 = s\<lparr>m_requestId := 0\<rparr>
      in case result of
           MTPwebViewResultUrl queryId url \<Rightarrow> show_panel queryId url (b_text button) s1
         | _ \<Rightarrow> Inr s1)"

definition request_button_fail :: "MTPerror \<Rightarrow> state \<Rightarrow> state" where
  "request_button_fail err s =
     (let s1 = s\<lparr>m_requestId := 0\<rparr>
      in if error_type err = ''BOT_INVALID'' then requestBots s1 else s1)"

definition requestSimple_button :: "WebViewButton \<Rightarrow> state \<Rightarrow> error + state" where
  "requestSimple_button button s =
     (case m_bot s of
        None \<Rightarrow> Inl NullDereference
      | Some b \<Rightarrow>
          (let (i, s1) = api_request
                 (MTPmessages_RequestSimpleWebView [f_theme_params] b (b_url button)
                    (webViewParams s))
                 (RequestSimpleWebView_handler button) s
           in Inr (s1\<lparr>m_requestId := i\<rparr>)))"

definition requestSimple_button_done ::
  "WebViewButton \<Rightarrow> MTPresult \<Rightarrow> state \<Rightarrow> error + state" where
  "requestSimple_button_done button result s =
     (let s1 = s\<lparr>m_requestId := 0\<rparr>
      in case result of
           MTPsimpleWebViewResultUrl url \<Rightarrow> show_panel 0 url (b_text button) s1
         | _ \<Rightarrow> Inr s1)"

definition requestSimple_button_fail :: "MTPerror \<Rightarrow> state \<Rightarrow> state" where
  "requestSimple_button_fail err s = s\<lparr>m_requestId := 0\<rparr>"

text \<open>The lambda \<open>requestMenu\<close> gives to \<open>confirmOpen\<close>; it captures \<open>url\<close> and \<open>text\<close>.\<close>

definition requestMenu_lambda :: "string \<Rightarrow> string \<Rightarrow> state \<Rightarrow> error + state" where
  "requestMenu_lambda url text s =
     (case m_bot s of
        None \<Rightarrow> Inl NullDereference
      | Some b \<Rightarrow>
          (let (i, s1) = api_request
                 (MTPmessages_RequestWebView [f_theme_params, f_url, f_from_bot_menu]
                    (UserPeer b) b url [] (webViewParams s))
                 (RequestMenu_handler text) s
           in Inr (s1\<lparr>m_requestId := i\<rparr>)))"

definition requestMenu_done :: "string \<Rightarrow> MTPresult \<Rightarrow> state \<Rightarrow> error + state" where
  "requestMenu_done text result s =
     (let s1 = s\<lparr>m_requestId := 0\<rparr>
      in case result of
           MTPwebViewResultUrl queryId url \<Rightarrow> show_panel queryId url text s1
         | _ \<Rightarrow> Inr s1)"

definition requestMenu_fail :: "MTPerror \<Rightarrow> state \<Rightarrow> state" where
  "requestMenu_fail err s =
     (let s1 = s\<lparr>m_requestId := 0\<rparr>
      in if error_type err = ''BOT_INVALID'' then requestBots s1 else s1)"

subsection \<open>\<open>confirmOpen\<close>\<close>

fun open_done_run :: "open_done \<Rightarrow> state \<Rightarrow> error + state" where
  "open_done_run (Request_done button) s = request_button button s"
| "open_done_run (RequestSimple_done button) s = requestSimple_button button s"
| "open_done_run (RequestMenu_done url text) s = requestMenu_lambda url text s"

definition confirmOpen :: "controller \<Rightarrow> open_done \<Rightarrow> state \<Rightarrow> error + state" where
  "confirmOpen c done s =
     (case m_bot s of
        None \<Rightarrow> Inr s
      | Some b \<Rightarrow>
          if isVerified (users (session_data s) b) \<or> b \<in> trustedOpenWebView s
          then open_done_run done s
          else Inr (show_box
                 (ConfirmOpenBox c (lng_allow_bot_webview (name (users (session_data s) b)))
                    done) s))"

text \<open>The lambda \<open>callback\<close> of \<open>confirmOpen\<close>, run when the box is confirmed.\<close>

definition confirmOpen_callback :: "controller \<Rightarrow> open_done \<Rightarrow> state \<Rightarrow> error + state" where
  "confirmOpen_callback c done s =
     (case m_bot s of
        None \<Rightarrow> Inl NullDereference
      | Some b \<Rightarrow>
          open_done_run done
            (hideLayer c (s\<lparr>trustedOpenWebView := insert b (trustedOpenWebView s)\<rparr>)))"

subsection \<open>The open entry points\<close>

definition request ::
  "controller option \<Rightarrow> PeerData \<Rightarrow> UserId \<Rightarrow> WebViewButton \<Rightarrow> state \<Rightarrow> error + state" where
  "request c peer b button s =
     (if m_peer s = Some peer \<and> m_bot s = Some b \<and> m_panel s = None \<and> m_requestId s \<noteq> 0
      then Inr s
      else
        (let s1 = (if m_peer s = Some peer \<and> m_bot s = Some b \<and> m_panel s \<noteq> None
                   then emit RequestActivate s else s);
             s2 = (cancel s1)\<lparr>m_bot := Some b, m_peer := Some peer\<rparr>
         in case c of
              Some w \<Rightarrow> confirmOpen w (Request_done button) s2
            | None \<Rightarrow> request_button button s2))"

definition requestSimple :: "controller \<Rightarrow> UserId \<Rightarrow> WebViewButton \<Rightarrow> state \<Rightarrow> error + state" where
  "requestSimple c b button s =
     confirmOpen c (RequestSimple_done button)
       ((cancel s)\<lparr>m_bot := Some b, m_peer := Some (UserPeer b)\<rparr>)"

definition requestMenu :: "controller \<Rightarrow> UserId \<Rightarrow> state \<Rightarrow> error + state" where
  "requestMenu c b s =
     (let s1 = (cancel s)\<lparr>m_bot := Some b, m_peer := Some (UserPeer b)\<rparr>
      in case botInfo (users (session_data s1) b) of
           None \<Rightarrow> Inl NullDereference
         | Some info \<Rightarrow>
             confirmOpen c (RequestMenu_done (botMenuButtonUrl info) (botMenuButtonText info)) s1)"

subsection \<open>\<open>toggleInMenu\<close>, \<open>confirmAddToMenu\<close>, \<open>requestAddToMenu\<close>, \<open>removeFromMenu\<close>\<close>

text \<open>
  The lambda \<open>open\<close> of \<open>requestAddToMenu\<close>.  Its \<open>bot\<close> is the pointer taken from
  \<open>_addToMenuBot\<close>; handing a null one to \<open>not_null\<close> fails its \<open>Expects\<close>.
\<close>

fun open_lambda_run :: "open_lambda \<Rightarrow> state \<Rightarrow> error + (bool \<times> state)" where
  "open_lambda_run (Open_lambda contextPeer b startCommand) s =
     (case contextPeer of
        None \<Rightarrow> Inr (False, s)
      | Some p \<Rightarrow>
          (case b of
             None \<Rightarrow> Inl ExpectsFailed
           | Some u \<Rightarrow>
               (case request None p u
                       \<lparr>b_text = [], b_startCommand = startCommand, b_url = []\<rparr> s of
                  Inl e \<Rightarrow> Inl e
                | Inr s1 \<Rightarrow> Inr (True, s1))))"

definition toggleInMenu :: "UserId \<Rightarrow> bool \<Rightarrow> toggle_callback option \<Rightarrow> state \<Rightarrow> state" where
  "toggleInMenu b enabled callback s =
     snd (api_request (MTPmessages_ToggleBotInAttachMenu b enabled)
            (ToggleBotInAttachMenu_handler callback) s)"

fun toggle_callback_run :: "toggle_callback \<Rightarrow> state \<Rightarrow> error + state" where
  "toggle_callback_run RemoveFromMenu_callback s =
     Inr (emit (ShowMultilineToast lng_bot_remove_from_menu_done) s)"
| "toggle_callback_run (ConfirmAddToMenu_callback callback) s =
     (case callback of
        None \<Rightarrow> Inr (emit (ShowMultilineToast lng_bot_add_to_menu_done) s)
      | Some l \<Rightarrow>
          (case open_lambda_run l s of
             Inl e \<Rightarrow> Inl e
           | Inr (ok, s1) \<Rightarrow> Inr (emit (ShowMultilineToast lng_bot_add_to_menu_done) s1)))"

definition toggleInMenu_done :: "toggle_callback option \<Rightarrow> state \<Rightarrow> error + state" where
  "toggleInMenu_done callback s =
     (let s1 = requestBots (s\<lparr>m_requestId := 0\<rparr>)
      in case callback of
           None \<Rightarrow> Inr s1
         | Some cb \<Rightarrow> toggle_callback_run cb s1)"

definition toggleInMenu_fail :: "state \<Rightarrow> state" where
  "toggleInMenu_fail s = cancel s"

definition removeFromMenu :: "UserId \<Rightarrow> state \<Rightarrow> state" where
  "removeFromMenu b s = toggleInMenu b False (Some RemoveFromMenu_callback) s"

definition confirmAddToMenu :: "AttachWebViewBot \<Rightarrow> open_lambda option \<Rightarrow> state \<Rightarrow> state" where
  "confirmAddToMenu abot callback s =
     (case activeWindow s of
        None \<Rightarrow> s
      | Some w \<Rightarrow>
          (let bx = ConfirmAddBox w (lng_bot_add_to_menu (awb_name abot)) abot callback
           in (show_box bx s)\<lparr>m_confirmAddBox := Some bx\<rparr>))"

text \<open>The lambda \<open>done\<close> of \<open>confirmAddToMenu\<close>, run when the box is confirmed.\<close>

definition confirmAddToMenu_done ::
  "box \<Rightarrow> AttachWebViewBot \<Rightarrow> open_lambda option \<Rightarrow> state \<Rightarrow> state" where
  "confirmAddToMenu_done bx abot callback s =
     (let s1 = toggleInMenu (awb_user abot) True (Some (ConfirmAddToMenu_callback callback)) s
      in s1\<lparr>boxes := remove1 bx (boxes s1)\<rparr>)"

definition requestAddToMenu :: "PeerData option \<Rightarrow> UserId \<Rightarrow> string \<Rightarrow> state \<Rightarrow> state" where
  "requestAddToMenu peer b startCommand s =
     (if (case botInfo (users (session_data s) b) of
            None \<Rightarrow> True
          | Some info \<Rightarrow> \<not> supportsAttachMenu info)
      then emit (ShowMultilineToast lng_bot_menu_not_supported) s
      else
        (let s1 = s\<lparr>m_addToMenuStartCommand := startCommand, m_addToMenuPeer := peer\<rparr>
         in if m_addToMenuId s1 \<noteq> 0 \<and> m_addToMenuBot s1 = Some b then s1
            else
              (let s2 = (if m_addToMenuId s1 \<noteq> 0
                         then api_cancel (m_addToMenuId s1) (s1\<lparr>m_addToMenuId := 0\<rparr>)
                         else s1);
                   s3 = s2\<lparr>m_addToMenuBot := Some b\<rparr>;
                   (i, s4) = api_request (MTPmessages_GetAttachMenuBot b)
                               GetAttachMenuBot_handler s3
               in s4\<lparr>m_addToMenuId := i\<rparr>)))"

definition requestAddToMenu_done :: "MTPresult \<Rightarrow> state \<Rightarrow> error + state" where
  "requestAddToMenu_done result s =
     (let s1 = s\<lparr>m_addToMenuId := 0\<rparr>;
          b = m_addToMenuBot s1;
          contextPeer = m_addToMenuPeer s1;
          startCommand = m_addToMenuStartCommand s1;
          s2 = s1\<lparr>m_addToMenuBot := None, m_addToMenuPeer := None,
                 m_addToMenuStartCommand := []\<rparr>;
          opn = Open_lambda contextPeer b startCommand
      in case result of
           MTPattachMenuBotsBot mbot vusers \<Rightarrow>
             (let (parsed, d) = ParseAttachBot (processUsers vusers (session_data s2)) mbot;
                  s3 = s2\<lparr>session_data := d\<rparr>
              in case parsed of
                   None \<Rightarrow> Inr s3
                 | Some p \<Rightarrow>
                     if b = Some (awb_user p)
                     then (if awb_inactive p then Inr (confirmAddToMenu p (Some opn) s3)
                           else (case open_lambda_run opn (requestBots s3) of
                                   Inl e \<Rightarrow> Inl e
                                 | Inr (ok, s4) \<Rightarrow>
                                     Inr (if \<not> ok
                                          then emit (ShowMultilineToast
                                                 lng_bot_menu_already_added) s4
                                          else s4)))
                     else Inr s3)
         | _ \<Rightarrow> Inr s2)"

definition requestAddToMenu_fail :: "state \<Rightarrow> state" where
  "requestAddToMenu_fail s =
     emit (ShowMultilineToast lng_bot_menu_not_supported)
       (s\<lparr>m_addToMenuId := 0, m_addToMenuBot := None, m_addToMenuPeer := None,
          m_addToMenuStartCommand := []\<rparr>)"

subsection \<open>\<open>resolve\<close>, \<open>resolveUsername\<close> and the open by username\<close>

text \<open>The lambda \<open>resolve\<close> gives to \<open>resolveUsername\<close>.\<close>

fun resolve_done_run :: "resolve_done \<Rightarrow> PeerData \<Rightarrow> state \<Rightarrow> error + state" where
  "resolve_done_run Resolve_done p s =
     (let s1 = s\<lparr>m_bot := asUser p\<rparr>
      in case m_bot s1 of
           None \<Rightarrow> Inr (emit (ShowMultilineToast lng_bot_menu_not_supported) s1)
         | Some b \<Rightarrow> Inr (requestAddToMenu (m_peer s1) b (m_startCommand s1) s1))"

definition resolveUsername :: "string \<Rightarrow> resolve_done \<Rightarrow> state \<Rightarrow> error + state" where
  "resolveUsername uname done s =
     (case m_peer s of
        None \<Rightarrow> Inl NullDereference
      | Some ctx \<Rightarrow>
          (case peerByUsername (session_data s) uname of
             Some p \<Rightarrow> resolve_done_run done p s
           | None \<Rightarrow>
               (let s1 = api_cancel (m_requestId s) (s\<lparr>m_requestId := 0\<rparr>);
                    (i, s2) = api_request (MTPcontacts_ResolveUsername uname)
                                (ResolveUsername_handler uname done) s1
                in Inr (s2\<lparr>m_requestId := i\<rparr>))))"

definition resolveUsername_done ::
  "string \<Rightarrow> resolve_done \<Rightarrow> MTPresult \<Rightarrow> state \<Rightarrow> error + state" where
  "resolveUsername_done uname done result s =
     (let s1 = s\<lparr>m_requestId := 0\<rparr>
      in case result of
           MTPcontacts_resolvedPeer vusers vchats vpeer \<Rightarrow>
             (case m_peer s1 of
                None \<Rightarrow> Inl NullDereference
              | Some ctx \<Rightarrow>
                  (let s2 = s1\<lparr>session_data :=
                               processChats vchats (processUsers vusers (session_data s1))\<rparr>
                   in case vpeer of
                        None \<Rightarrow> Inr s2
                      | Some p \<Rightarrow> resolve_done_run done p s2))
         | _ \<Rightarrow> Inr s1)"

definition resolveUsername_fail :: "string \<Rightarrow> MTPerror \<Rightarrow> state \<Rightarrow> state" where
  "resolveUsername_fail uname err s =
     (let s1 = s\<lparr>m_requestId := 0\<rparr>
      in if error_code err = 400
         then emit (ShowMultilineToast (lng_username_not_found uname)) s1
         else s1)"

definition resolve :: "state \<Rightarrow> error + state" where
  "resolve s = resolveUsername (m_botUsername s) Resolve_done s"

definition request_username :: "PeerData \<Rightarrow> string \<Rightarrow> string \<Rightarrow> state \<Rightarrow> error + state" where
  "request_username peer botUsername startCommand s =
     (if botUsername = [] then Inr s
      else
        (let uname = (case m_bot s of
                        Some b \<Rightarrow> username (users (session_data s) b)
                      | None \<Rightarrow> m_botUsername s)
         in if m_peer s = Some peer \<and> toLower uname = toLower botUsername
               \<and> m_startCommand s = startCommand
            then Inr (if m_panel s \<noteq> None then emit RequestActivate s else s)
            else resolve ((cancel s)\<lparr>m_peer := Some peer, m_botUsername := botUsername,
                            m_startCommand := startCommand\<rparr>)))"

section \<open>Events\<close>

text \<open>
  What can happen to an \<open>AttachWebView\<close>: a caller invokes a public member function, the
  API completes a pending request, the user answers a box, the panel calls one of the
  callbacks \<open>show\<close> gave it, the keepalive timer fires, or the data session announces
  \<open>webViewResultSent\<close>.
\<close>

datatype event =
    Call_request_username PeerData string string
  | Call_request "controller option" PeerData UserId WebViewButton
  | Call_requestSimple controller UserId WebViewButton
  | Call_requestMenu controller UserId
  | Call_cancel
  | Call_requestBots
  | Call_requestAddToMenu "PeerData option" UserId string
  | Call_removeFromMenu UserId
  | Done mtpRequestId MTPresult
  | Fail mtpRequestId MTPerror
  | BoxConfirmed box
  | BoxDeclined box
  | PanelClose
  | PanelSendData string nat
  | TimerTick
  | WebViewResultSent nat

text \<open>The result type each request is answered with.\<close>

fun accepts :: "handler \<Rightarrow> MTPresult \<Rightarrow> bool" where
  "accepts (RequestWebView_handler button) (MTPwebViewResultUrl q url) = True"
| "accepts (RequestMenu_handler text) (MTPwebViewResultUrl q url) = True"
| "accepts (RequestSimpleWebView_handler button) (MTPsimpleWebViewResultUrl url) = True"
| "accepts (ResolveUsername_handler uname done) (MTPcontacts_resolvedPeer us cs p) = True"
| "accepts GetAttachMenuBots_handler MTPattachMenuBotsNotModified = True"
| "accepts GetAttachMenuBots_handler (MTPattachMenuBots h bs us) = True"
| "accepts GetAttachMenuBot_handler (MTPattachMenuBotsBot b us) = True"
| "accepts (ToggleBotInAttachMenu_handler cb) MTPbool = True"
| "accepts ProlongWebView_handler MTPbool = True"
| "accepts SendWebViewData_handler MTPupdates = True"
| "accepts h r = False"

fun handle_done :: "handler \<Rightarrow> MTPresult \<Rightarrow> state \<Rightarrow> error + state" where
  "handle_done (RequestWebView_handler button) r s = request_button_done button r s"
| "handle_done (RequestSimpleWebView_handler button) r s = requestSimple_button_done button r s"
| "handle_done (RequestMenu_handler text) r s = requestMenu_done text r s"
| "handle_done (ResolveUsername_handler uname done) r s = resolveUsername_done uname done r s"
| "handle_done GetAttachMenuBots_handler r s = Inr (requestBots_done r s)"
| "handle_done GetAttachMenuBot_handler r s = requestAddToMenu_done r s"
| "handle_done (ToggleBotInAttachMenu_handler cb) r s = toggleInMenu_done cb s"
| "handle_done ProlongWebView_handler r s = Inr (prolong_done s)"
| "handle_done SendWebViewData_handler r s = Inr s"

fun handle_fail :: "handler \<Rightarrow> MTPerror \<Rightarrow> state \<Rightarrow> state" where
  "handle_fail (RequestWebView_handler button) e s = request_button_fail e s"
| "handle_fail (RequestSimpleWebView_handler button) e s = requestSimple_button_fail e s"
| "handle_fail (RequestMenu_handler text) e s = requestMenu_fail e s"
| "handle_fail (ResolveUsername_handler uname done) e s = resolveUsername_fail uname e s"
| "handle_fail GetAttachMenuBots_handler e s = requestBots_fail s"
| "handle_fail GetAttachMenuBot_handler e s = requestAddToMenu_fail s"
| "handle_fail (ToggleBotInAttachMenu_handler cb) e s = toggleInMenu_fail s"
| "handle_fail ProlongWebView_handler e s = s"
| "handle_fail SendWebViewData_handler e s = s"

text \<open>A completed request is no longer pending.\<close>

definition api_complete :: "mtpRequestId \<Rightarrow> state \<Rightarrow> state" where
  "api_complete i s = s\<lparr>api_pending := filter (\<lambda>p. fst p \<noteq> i) (api_pending s)\<rparr>"

fun box_confirmed :: "box \<Rightarrow> state \<Rightarrow> error + state" where
  "box_confirmed (ConfirmOpenBox c t done) s = confirmOpen_callback c done s"
| "box_confirmed (ConfirmAddBox w t abot callback) s =
     Inr (confirmAddToMenu_done (ConfirmAddBox w t abot callback) abot callback s)"

text \<open>The timers and the filters of a panel's lifetime, in the order they were added.\<close>

fun timers :: "subscription list \<Rightarrow> nat list" where
  "timers [] = []"
| "timers (Timer_each period q # subs) = q # timers subs"
| "timers (WebViewResultSent_filter q # subs) = timers subs"

fun filters :: "subscription list \<Rightarrow> nat list" where
  "filters [] = []"
| "filters (Timer_each period q # subs) = filters subs"
| "filters (WebViewResultSent_filter q # subs) = q # filters subs"

text \<open>
  Each timer of the panel fires its lambda; a firing that destroys the panel ends the
  remaining ones with it.
\<close>

fun fire_timers :: "nat list \<Rightarrow> state \<Rightarrow> error + state" where
  "fire_timers [] s = Inr s"
| "fire_timers (q # qs) s =
     (if m_panel s = None then Inr s
      else case prolong_tick q s of
             Inl e \<Rightarrow> Inl e
           | Inr s1 \<Rightarrow> fire_timers qs s1)"

fun step :: "event \<Rightarrow> state \<Rightarrow> error + state" where
  "step (Call_request_username peer botUsername startCommand) s =
     request_username peer botUsername startCommand s"
| "step (Call_request c peer b button) s = request c peer b button s"
| "step (Call_requestSimple c b button) s = requestSimple c b button s"
| "step (Call_requestMenu c b) s = requestMenu c b s"
| "step Call_cancel s = Inr (cancel s)"
| "step Call_requestBots s = Inr (requestBots s)"
| "step (Call_requestAddToMenu peer b startCommand) s =
     Inr (requestAddToMenu peer b startCommand s)"
| "step (Call_removeFromMenu b) s = Inr (removeFromMenu b s)"
| "step (Done i r) s =
     (case map_of (api_pending s) i of
        None \<Rightarrow> Inr s
      | Some h \<Rightarrow> if accepts h r then handle_done h r (api_complete i s) else Inr s)"
| "step (Fail i e) s =
     (case map_of (api_pending s) i of
        None \<Rightarrow> Inr s
      | Some h \<Rightarrow> Inr (handle_fail h e (api_complete i s)))"
| "step (BoxConfirmed bx) s = (if bx \<in> set (boxes s) then box_confirmed bx s else Inr s)"
| "step (BoxDeclined bx) s = Inr (s\<lparr>boxes := remove1 bx (boxes s)\<rparr>)"
| "step PanelClose s = (if m_panel s = None then Inr s else Inr (cancel s))"
| "step (PanelSendData dat randomId) s =
     (case m_panel s of
        None \<Rightarrow> Inr s
      | Some p \<Rightarrow> sendData (p_queryId p) (p_buttonText p) dat randomId s)"
| "step TimerTick s =
     (case m_panel s of
        None \<Rightarrow> Inr s
      | Some p \<Rightarrow> fire_timers (timers (lifetime p)) s)"
| "step (WebViewResultSent q) s =
     (case m_panel s of
        None \<Rightarrow> Inr s
      | Some p \<Rightarrow> if q \<in> set (filters (lifetime p)) then Inr (cancel s) else Inr s)"

fun run :: "event list \<Rightarrow> state \<Rightarrow> error + state" where
  "run [] s = Inr s"
| "run (e # es) s = (case step e s of Inl err \<Rightarrow> Inl err | Inr s1 \<Rightarrow> run es s1)"

text \<open>
  A newly constructed \<open>AttachWebView\<close> with identity \<open>me\<close>: every member has its default
  value, nothing is pending and no box is shown; the data session, the trust storage,
  the active window and the theme are the environment's.
\<close>

definition initial ::
  "nat \<Rightarrow> Data_Session \<Rightarrow> UserId set \<Rightarrow> controller option \<Rightarrow> string \<Rightarrow> state" where
  "initial me d trusted w theme =
     \<lparr>m_peer = None, m_bot = None, m_botUsername = [], m_startCommand = [],
      m_requestId = 0, m_prolongId = 0, m_panel = None, m_botsRequestId = 0,
      m_botsHash = 0, m_attachBots = [], m_addToMenuStartCommand = [],
      m_addToMenuPeer = None, m_addToMenuBot = None, m_addToMenuId = 0,
      m_confirmAddBox = None, m_replyToMsgId = 0, self = me, ActiveWebViews = {},
      api_count = 0, api_pending = [], trace = [], session_data = d,
      trustedOpenWebView = trusted, boxes = [], activeWindow = w,
      webViewParams = theme\<rparr>"

section \<open>Invariants and observations\<close>

text \<open>
  The ids of the pending requests are distinct, non-zero and were all given out
  already.
\<close>

definition ids_ok :: "state \<Rightarrow> bool" where
  "ids_ok s =
     (distinct (map fst (api_pending s))
      \<and> (\<forall>i h. (i, h) \<in> set (api_pending s) \<longrightarrow> 0 < i \<and> i \<le> api_count s))"

text \<open>Every pending prolong request is the one \<open>_prolongId\<close> names.\<close>

definition prolong_tracked :: "state \<Rightarrow> bool" where
  "prolong_tracked s =
     (\<forall>i. (i, ProlongWebView_handler) \<in> set (api_pending s) \<longrightarrow> i = m_prolongId s)"

text \<open>
  A shown panel owns exactly what \<open>started\<close> gave it: the filter and one timer of
  period \<open>kProlongTimeout\<close>, both for the query id the panel was shown with.
\<close>

definition panel_ok :: "state \<Rightarrow> bool" where
  "panel_ok s =
     (case m_panel s of
        None \<Rightarrow> True
      | Some p \<Rightarrow> lifetime p = [WebViewResultSent_filter (p_queryId p),
                                Timer_each kProlongTimeout (p_queryId p)])"

text \<open>The invariant of the keepalive.\<close>

definition keepalive_inv :: "state \<Rightarrow> bool" where
  "keepalive_inv s = (ids_ok s \<and> prolong_tracked s \<and> panel_ok s)"

text \<open>
  The requests \<open>_requestId\<close> is used for: the three open requests and the username
  lookup.  \<open>open_tracked\<close>: every pending one of them is the one \<open>_requestId\<close> names.
\<close>

fun is_open_handler :: "handler \<Rightarrow> bool" where
  "is_open_handler (RequestWebView_handler button) = True"
| "is_open_handler (RequestSimpleWebView_handler button) = True"
| "is_open_handler (RequestMenu_handler text) = True"
| "is_open_handler (ResolveUsername_handler uname done) = True"
| "is_open_handler h = False"

definition open_tracked :: "state \<Rightarrow> bool" where
  "open_tracked s =
     (ids_ok s
      \<and> (\<forall>i h. (i, h) \<in> set (api_pending s) \<and> is_open_handler h \<longrightarrow> i = m_requestId s))"

text \<open>\<open>open_idle\<close>: moreover \<open>_requestId\<close> is zero, so none of them is pending.\<close>

definition open_idle :: "state \<Rightarrow> bool" where
  "open_idle s = (open_tracked s \<and> m_requestId s = 0)"

text \<open>
  The two events after which a pending open or resolve request may no longer be the one
  \<open>_requestId\<close> names, when they happen while \<open>_requestId\<close> is set: the consent prompt
  is accepted (its continuation sends an open request without cancelling), and a toggle
  request succeeds (its done handler zeroes \<open>_requestId\<close>).
\<close>

fun breaks_tracking :: "state \<Rightarrow> event \<Rightarrow> bool" where
  "breaks_tracking s (BoxConfirmed (ConfirmOpenBox c t done)) = (m_requestId s \<noteq> 0)"
| "breaks_tracking s (Done i r) =
     (case map_of (api_pending s) i of
        Some (ToggleBotInAttachMenu_handler cb) \<Rightarrow> m_requestId s \<noteq> 0
      | _ \<Rightarrow> False)"
| "breaks_tracking s e = False"

fun never_breaks :: "event list \<Rightarrow> state \<Rightarrow> bool" where
  "never_breaks [] s = True"
| "never_breaks (e # es) s =
     (\<not> breaks_tracking s e
      \<and> (case step e s of Inl err \<Rightarrow> True | Inr s1 \<Rightarrow> never_breaks es s1))"


text \<open>
  From \<open>s\<close> to \<open>s'\<close> the panel stayed and no request became pending other than one
  with the next id, which is not a prolong request.
\<close>

definition sends_at_most_one :: "state \<Rightarrow> state \<Rightarrow> bool" where
  "sends_at_most_one s s' =
     (m_panel s' = m_panel s
      \<and> (\<forall>i h. (i, h) \<in> set (api_pending s') \<longrightarrow>
             (i, h) \<in> set (api_pending s)
             \<or> (i = Suc (api_count s) \<and> h \<noteq> ProlongWebView_handler)))"

text \<open>The trust storage holds exactly \<open>X\<close>.\<close>

definition trust_is :: "UserId set \<Rightarrow> state \<Rightarrow> bool" where
  "trust_is X s = (trustedOpenWebView s = X)"

fun is_consent_accept :: "event \<Rightarrow> bool" where
  "is_consent_accept (BoxConfirmed (ConfirmOpenBox c t done)) = True"
| "is_consent_accept e = False"

text \<open>Counting, in a trace, the directory snapshot requests and the toggle requests.\<close>

fun is_snapshot_request :: "effect \<Rightarrow> bool" where
  "is_snapshot_request (Send i (MTPmessages_GetAttachMenuBots h)) = True"
| "is_snapshot_request e = False"

fun is_toggle_request :: "effect \<Rightarrow> bool" where
  "is_toggle_request (Send i (MTPmessages_ToggleBotInAttachMenu b enabled)) = True"
| "is_toggle_request e = False"

definition snapshot_requests :: "effect list \<Rightarrow> nat" where
  "snapshot_requests tr = length (filter is_snapshot_request tr)"

definition toggle_requests :: "effect list \<Rightarrow> nat" where
  "toggle_requests tr = length (filter is_toggle_request tr)"

section \<open>An example environment\<close>

text \<open>
  A data session in which every user is a loaded bot named \<open>botx\<close> that supports the
  attach menu, user 5 is verified and is the one known peer; an orchestrator created
  in it; a button; and the orchestrator while its open request for user 5 in chat 7
  is pending.
\<close>

definition ex_data :: Data_Session where
  "ex_data =
     \<lparr>users = (\<lambda>i. \<lparr>isLoaded = True, username = ''botx'', name = ''Bot X'',
                   verified = (i = 5),
                   botInfo = Some \<lparr>supportsAttachMenu = True,
                     botMenuButtonUrl = ''https://m'', botMenuButtonText = ''Menu''\<rparr>\<rparr>),
      known_peers = [UserPeer 5], chats = [], forcedToCache = [], saved = []\<rparr>"

definition ex_initial :: state where
  "ex_initial = initial 1 ex_data {} (Some 3) ''{}''"

definition ex_button :: WebViewButton where
  "ex_button = \<lparr>b_text = ''Open'', b_startCommand = [], b_url = ''https://a''\<rparr>"

definition ex_opening :: state where
  "ex_opening =
     ex_initial\<lparr>m_peer := Some (OtherPeer 7), m_bot := Some 5, m_requestId := 1,
       api_count := 1, api_pending := [(1, RequestWebView_handler ex_button)]\<rparr>"

text \<open>The same orchestrator with a panel for the simple session of user 5.\<close>

definition ex_simple_live :: state where
  "ex_simple_live =
     ex_initial\<lparr>m_peer := Some (UserPeer 5), m_bot := Some 5,
       m_panel := Some \<lparr>p_url = ''https://u'', p_title = 5, p_bottom = ''@botx'',
         p_queryId = 0, p_buttonText = ''Open'',
         lifetime = [WebViewResultSent_filter 0, Timer_each kProlongTimeout 0]\<rparr>,
       ActiveWebViews := {1}, api_count := 1\<rparr>"

text \<open>The same orchestrator while a directory snapshot request is pending.\<close>

definition ex_refreshing :: state where
  "ex_refreshing =
     ex_initial\<lparr>m_botsRequestId := 1, api_count := 1,
       api_pending := [(1, GetAttachMenuBots_handler)]\<rparr>"

text \<open>A general open for user 5 in chat 7, its answer, and one tick of the keepalive.\<close>

definition ex_live_events :: "event list" where
  "ex_live_events =
     [Call_request None (OtherPeer 7) 5 ex_button,
      Done 1 (MTPwebViewResultUrl 42 ''https://u''),
      TimerTick]"

text \<open>
  A data session with two unverified bots, user 5 named \<open>Good\<close> and user 6 named
  \<open>Evil\<close>, and an orchestrator created in it with an empty trust storage.
\<close>

definition ex_two_bots :: Data_Session where
  "ex_two_bots =
     \<lparr>users = (\<lambda>i. \<lparr>isLoaded = True,
                   username = (if i = 6 then ''evil'' else ''good''),
                   name = (if i = 6 then ''Evil'' else ''Good''),
                   verified = False,
                   botInfo = Some \<lparr>supportsAttachMenu = True,
                     botMenuButtonUrl = ''https://m'', botMenuButtonText = ''Menu''\<rparr>\<rparr>),
      known_peers = [UserPeer 5, UserPeer 6], chats = [], forcedToCache = [], saved = []\<rparr>"

definition ex_initial2 :: state where
  "ex_initial2 = initial 1 ex_two_bots {} (Some 3) ''{}''"

text \<open>
  An open by username for \<open>evil\<close> in chat 7 sends the registration-status request; a
  simple open for user 5 shows the consent prompt naming \<open>Good\<close>; the
  registration-status request is answered (user 6 is active in the menu), which opens
  a session for user 6; then the user accepts the prompt.
\<close>

definition ex_consent_race_events :: "event list" where
  "ex_consent_race_events =
     [Call_request_username (OtherPeer 7) ''evil'' [],
      Call_requestSimple 3 5 ex_button,
      Done 1 (MTPattachMenuBotsBot
        \<lparr>vbot_id = 6, vshort_name = ''Evil'', vicons = [], is_inactive = False\<rparr> []),
      BoxConfirmed (ConfirmOpenBox 3 (lng_allow_bot_webview ''Good'')
        (RequestSimple_done ex_button))]"

text \<open>
  A general open, then \<open>removeFromMenu\<close> and the success of its toggle request while the
  open request is pending, then \<open>cancel\<close>.
\<close>

definition ex_toggle_then_cancel :: "event list" where
  "ex_toggle_then_cancel =
     [Call_request None (OtherPeer 7) 5 ex_button,
      Call_removeFromMenu 5,
      Done 2 MTPbool,
      Call_cancel]"

text \<open>
  The orchestrator after \<open>removeFromMenu\<close> for user 5, called while its open request
  for user 5 in chat 7 is pending.
\<close>

definition ex_toggling :: state where
  "ex_toggling = removeFromMenu 5 ex_opening"

text \<open>
  A general open for user 5 in chat 7, its answer, and the same open called again while
  the panel is shown.
\<close>

definition ex_reopen_events :: "event list" where
  "ex_reopen_events =
     [Call_request None (OtherPeer 7) 5 ex_button,
      Done 1 (MTPwebViewResultUrl 42 ''https://u''),
      Call_request None (OtherPeer 7) 5 ex_button]"

text \<open>A simple open for the verified user 5, its answer, and one tick of the keepalive.\<close>

definition ex_simple_events :: "event list" where
  "ex_simple_events =
     [Call_requestSimple 3 5 ex_button,
      Done 1 (MTPsimpleWebViewResultUrl ''https://u''),
      TimerTick]"

text \<open>The orchestrator while its simple open request for user 5 is pending.\<close>

definition ex_simple_opening :: state where
  "ex_simple_opening =
     ex_initial\<lparr>m_peer := Some (UserPeer 5), m_bot := Some 5, m_requestId := 1,
       api_count := 1, api_pending := [(1, RequestSimpleWebView_handler ex_button)]\<rparr>"



text \<open>
  A general open, then \<open>removeFromMenu\<close> and the success of its toggle request while the
  open request is pending, then a general open for another bot and chat.
\<close>

definition ex_toggle_between_opens :: "event list" where
  "ex_toggle_between_opens =
     [Call_request None (OtherPeer 7) 5 ex_button,
      Call_removeFromMenu 5,
      Done 2 MTPbool,
      Call_request None (OtherPeer 8) 6 ex_button]"

lemmas run_defs = request_def cancel_def api_cancel_def api_request_def
  request_button_def request_button_done_def show_panel_def started_def Let_def emit_def
  kProlongTimeout_def api_complete_def confirmOpen_def isVerified_def requestSimple_def
  requestSimple_button_def requestSimple_button_done_def prolong_tick_def

lemmas run_defs2 = run_defs request_username_def resolve_def resolveUsername_def
  peerByUsername_def peer_username_def toLower_def toLower_char_def requestAddToMenu_def
  requestAddToMenu_done_def ParseAttachBot_def userLoaded_def requestBots_def
  removeFromMenu_def toggleInMenu_def toggleInMenu_done_def

lemmas ex_defs = ex_data_def ex_initial_def ex_button_def initial_def

lemmas ex_defs2 = ex_two_bots_def ex_initial2_def ex_button_def initial_def

section \<open>Properties\<close>

subsection \<open>\<open>requestBots\<close>\<close>

text \<open>
  C9.  While a snapshot request is in flight \<open>requestBots\<close> changes nothing, so it sends
  no second one, and \<open>requestBots\<close> itself never touches the cached bots.  When the
  pending snapshot request is answered with "not modified", or fails, the only changes
  are that the request is no longer pending and \<open>_botsRequestId\<close> is zero: the cached
  bots, the hash, the data session and the trace (so no change notification) are the
  same.
\<close>

theorem requestBots_changes_only_on_snapshot:
  "(m_botsRequestId s \<noteq> 0 \<longrightarrow> step Call_requestBots s = Inr s)
   \<and> m_attachBots (requestBots s) = m_attachBots s
   \<and> (map_of (api_pending s) i = Some GetAttachMenuBots_handler \<longrightarrow>
        step (Done i MTPattachMenuBotsNotModified) s
          = Inr ((api_complete i s)\<lparr>m_botsRequestId := 0\<rparr>)
        \<and> step (Fail i e) s = Inr ((api_complete i s)\<lparr>m_botsRequestId := 0\<rparr>)
        \<and> m_attachBots ((api_complete i s)\<lparr>m_botsRequestId := 0\<rparr>) = m_attachBots s
        \<and> m_botsHash ((api_complete i s)\<lparr>m_botsRequestId := 0\<rparr>) = m_botsHash s
        \<and> session_data ((api_complete i s)\<lparr>m_botsRequestId := 0\<rparr>) = session_data s
        \<and> trace ((api_complete i s)\<lparr>m_botsRequestId := 0\<rparr>) = trace s)"
  by (simp add: requestBots_def requestBots_done_def requestBots_fail_def api_complete_def
        api_request_def Let_def)

theorem requestBots_changes_only_on_snapshot_witness:
  "m_botsRequestId ex_refreshing \<noteq> 0
   \<and> map_of (api_pending ex_refreshing) 1 = Some GetAttachMenuBots_handler
   \<and> step Call_requestBots ex_refreshing = Inr ex_refreshing
   \<and> step (Done 1 MTPattachMenuBotsNotModified) ex_refreshing
        = Inr ((api_complete 1 ex_refreshing)\<lparr>m_botsRequestId := 0\<rparr>)
   \<and> m_attachBots ((api_complete 1 ex_refreshing)\<lparr>m_botsRequestId := 0\<rparr>)
        = m_attachBots ex_refreshing"
  using requestBots_changes_only_on_snapshot [of ex_refreshing 1]
  by (simp add: ex_refreshing_def ex_defs)

subsection \<open>Failure of an open request\<close>

text \<open>
  C8.  When the pending request of the general open or of the menu open fails with the
  error type \<open>BOT_INVALID\<close>, the fail handler clears \<open>_requestId\<close> and calls
  \<open>requestBots\<close> once: a snapshot request is then in flight, and the only request sent
  is that snapshot request (none when one was already in flight).  No open request is
  sent again.
\<close>

theorem open_failure_refreshes_once:
  "map_of (api_pending s) i = Some h \<Longrightarrow>
   h = RequestWebView_handler button \<or> h = RequestMenu_handler text \<Longrightarrow>
   error_type e = ''BOT_INVALID'' \<Longrightarrow>
   \<exists>s'. step (Fail i e) s = Inr s'
     \<and> s' = requestBots ((api_complete i s)\<lparr>m_requestId := 0\<rparr>)
     \<and> m_requestId s' = 0
     \<and> trace s' = trace s @
          (if m_botsRequestId s = 0
           then [Send (Suc (api_count s)) (MTPmessages_GetAttachMenuBots (m_botsHash s))]
           else [])
     \<and> api_pending s' = filter (\<lambda>p. fst p \<noteq> i) (api_pending s) @
          (if m_botsRequestId s = 0
           then [(Suc (api_count s), GetAttachMenuBots_handler)]
           else [])
     \<and> m_botsRequestId s' \<noteq> 0"
  by (auto simp: request_button_fail_def requestMenu_fail_def requestBots_def api_complete_def
        api_request_def Let_def)

theorem open_failure_refreshes_once_witness:
  "map_of (api_pending ex_opening) 1 = Some (RequestWebView_handler ex_button)
   \<and> (\<exists>s'. step (Fail 1 \<lparr>error_type = ''BOT_INVALID'', error_code = 400\<rparr>) ex_opening = Inr s'
         \<and> trace s' = [Send 2 (MTPmessages_GetAttachMenuBots 0)]
         \<and> api_pending s' = [(2, GetAttachMenuBots_handler)])"
  using open_failure_refreshes_once
    [where s = ex_opening and i = 1 and h = "RequestWebView_handler ex_button"
       and button = ex_button and e = "\<lparr>error_type = ''BOT_INVALID'', error_code = 400\<rparr>"]
  by (simp add: ex_opening_def ex_defs requestBots_def api_complete_def api_request_def)

subsection \<open>The data-submission callback\<close>

text \<open>
  What \<open>show\<close> installs: a panel whose \<open>sendData\<close> callback captured the query id and
  the button text, and whose lifetime holds the filter and the timer of \<open>started\<close>.
\<close>

lemma show_panel_installs:
  "show_panel q url t s = Inr s' \<Longrightarrow>
     \<exists>p. m_panel s' = Some p \<and> p_queryId p = q \<and> p_buttonText p = t \<and> p_url p = url
       \<and> lifetime p = [WebViewResultSent_filter q, Timer_each kProlongTimeout q]
       \<and> self s' \<in> ActiveWebViews s'"
  by (auto simp: show_panel_def started_def split: option.splits if_splits)

text \<open>
  C10.  The callback \<open>sendData\<close> of a shown panel changes nothing when \<open>_peer\<close> is not the
  bot itself or the query id it captured is not zero.  When \<open>_peer\<close> is the bot and the
  query id is zero it sends exactly one \<open>SendWebViewData\<close> request and then calls
  \<open>cancel\<close>: afterwards there is no panel, no session context, and the orchestrator is
  not in \<open>ActiveWebViews\<close>.
\<close>

theorem sendData_only_for_simple_session:
  "m_panel s = Some p \<Longrightarrow>
   ((m_peer s \<noteq> map_option UserPeer (m_bot s) \<or> p_queryId p \<noteq> 0)
      \<longrightarrow> step (PanelSendData dat r) s = Inr s)
   \<and> (m_bot s = Some b \<and> m_peer s = Some (UserPeer b) \<and> p_queryId p = 0
      \<longrightarrow> (\<exists>s'. step (PanelSendData dat r) s = Inr s'
            \<and> s' = cancel (snd (api_request
                  (MTPmessages_SendWebViewData b r (p_buttonText p) dat)
                  SendWebViewData_handler s))
            \<and> trace s' = trace s @ [Send (Suc (api_count s))
                  (MTPmessages_SendWebViewData b r (p_buttonText p) dat)]
            \<and> m_panel s' = None \<and> m_peer s' = None \<and> m_bot s' = None
            \<and> self s' \<notin> ActiveWebViews s'))"
  by (auto simp: sendData_def cancel_def api_cancel_def api_request_def Let_def)

theorem sendData_only_for_simple_session_witness:
  "m_bot ex_simple_live = Some 5 \<and> m_peer ex_simple_live = Some (UserPeer 5)
   \<and> (\<exists>p. m_panel ex_simple_live = Some p \<and> p_queryId p = 0)
   \<and> (\<exists>s'. step (PanelSendData ''data'' 9) ex_simple_live = Inr s'
         \<and> trace s' = [Send 2 (MTPmessages_SendWebViewData 5 9 ''Open'' ''data'')]
         \<and> m_panel s' = None)"
  using sendData_only_for_simple_session
    [of ex_simple_live "the (m_panel ex_simple_live)" "''data''" 9 5]
  by (simp add: ex_simple_live_def ex_defs)

subsection \<open>The keepalive\<close>

text \<open>
  Every member function and every handler preserves \<open>keepalive_inv\<close>; the lemmas follow
  the call graph, from the API up to \<open>step\<close> and \<open>run\<close>.
\<close>

lemmas kinv_defs = keepalive_inv_def ids_ok_def prolong_tracked_def panel_ok_def

lemma kinv_update [simp]:
  "keepalive_inv (s\<lparr>m_peer := a1\<rparr>) = keepalive_inv s"
  "keepalive_inv (s\<lparr>m_bot := a2\<rparr>) = keepalive_inv s"
  "keepalive_inv (s\<lparr>m_botUsername := a3\<rparr>) = keepalive_inv s"
  "keepalive_inv (s\<lparr>m_startCommand := a4\<rparr>) = keepalive_inv s"
  "keepalive_inv (s\<lparr>m_requestId := a5\<rparr>) = keepalive_inv s"
  "keepalive_inv (s\<lparr>m_botsRequestId := a7\<rparr>) = keepalive_inv s"
  "keepalive_inv (s\<lparr>m_botsHash := a8\<rparr>) = keepalive_inv s"
  "keepalive_inv (s\<lparr>m_attachBots := a9\<rparr>) = keepalive_inv s"
  "keepalive_inv (s\<lparr>m_addToMenuStartCommand := a10\<rparr>) = keepalive_inv s"
  "keepalive_inv (s\<lparr>m_addToMenuPeer := a11\<rparr>) = keepalive_inv s"
  "keepalive_inv (s\<lparr>m_addToMenuBot := a12\<rparr>) = keepalive_inv s"
  "keepalive_inv (s\<lparr>m_addToMenuId := a13\<rparr>) = keepalive_inv s"
  "keepalive_inv (s\<lparr>m_confirmAddBox := a14\<rparr>) = keepalive_inv s"
  "keepalive_inv (s\<lparr>ActiveWebViews := a15\<rparr>) = keepalive_inv s"
  "keepalive_inv (s\<lparr>trace := a16\<rparr>) = keepalive_inv s"
  "keepalive_inv (s\<lparr>session_data := a17\<rparr>) = keepalive_inv s"
  "keepalive_inv (s\<lparr>trustedOpenWebView := a18\<rparr>) = keepalive_inv s"
  "keepalive_inv (s\<lparr>boxes := a19\<rparr>) = keepalive_inv s"
  by (simp_all add: kinv_defs)

lemma kinv_api_request:
  "keepalive_inv s \<Longrightarrow> h \<noteq> ProlongWebView_handler \<Longrightarrow> api_request r h s = (i, s1)
     \<Longrightarrow> keepalive_inv s1"
  by (fastforce simp: kinv_defs api_request_def)

lemma kinv_api_cancel [simp]: "keepalive_inv s \<Longrightarrow> keepalive_inv (api_cancel i s)"
  by (fastforce simp: kinv_defs api_cancel_def distinct_map_filter)

lemma kinv_api_complete [simp]: "keepalive_inv s \<Longrightarrow> keepalive_inv (api_complete i s)"
  by (fastforce simp: kinv_defs api_complete_def distinct_map_filter)

lemma kinv_emit [simp]: "keepalive_inv (emit e s) = keepalive_inv s"
  by (simp add: emit_def)

lemma kinv_show_box [simp]: "keepalive_inv (show_box b s) = keepalive_inv s"
  by (simp add: show_box_def)

lemma kinv_hideLayer [simp]: "keepalive_inv (hideLayer c s) = keepalive_inv s"
  by (simp add: hideLayer_def)

lemma kinv_cancel [simp]: "keepalive_inv s \<Longrightarrow> keepalive_inv (cancel s)"
  by (fastforce simp: kinv_defs cancel_def api_cancel_def Let_def distinct_map_filter)

lemma kinv_prolong_done:
  assumes "keepalive_inv s" and "map_of (api_pending s) i = Some ProlongWebView_handler"
  shows "keepalive_inv (prolong_done (api_complete i s))"
proof -
  from assms(2) have "(i, ProlongWebView_handler) \<in> set (api_pending s)"
    by (rule map_of_SomeD)
  with assms(1) have i: "i = m_prolongId s"
    by (simp add: kinv_defs)
  have "\<And>j. (j, ProlongWebView_handler) \<in> set (api_pending s) \<Longrightarrow> j = i"
    using assms(1) i by (simp add: kinv_defs)
  then show ?thesis
    using assms(1)
    by (fastforce simp: kinv_defs prolong_done_def api_complete_def distinct_map_filter)
qed

lemma kinv_requestBots [simp]: "keepalive_inv s \<Longrightarrow> keepalive_inv (requestBots s)"
  by (auto simp: requestBots_def split: prod.splits dest: kinv_api_request[rotated 2])

lemma kinv_requestBots_done [simp]: "keepalive_inv s \<Longrightarrow> keepalive_inv (requestBots_done r s)"
  by (simp add: requestBots_done_def Let_def split: MTPresult.splits prod.splits)

lemma kinv_requestBots_fail [simp]: "keepalive_inv s \<Longrightarrow> keepalive_inv (requestBots_fail s)"
  by (simp add: requestBots_fail_def)

lemma kinv_show_panel: "keepalive_inv s \<Longrightarrow> show_panel q u t s = Inr s' \<Longrightarrow> keepalive_inv s'"
  by (fastforce simp: kinv_defs show_panel_def started_def split: option.splits if_splits)

lemma kinv_prolong_tick: "keepalive_inv s \<Longrightarrow> prolong_tick q s = Inr s' \<Longrightarrow> keepalive_inv s'"
  by (fastforce simp: kinv_defs prolong_tick_def api_cancel_def api_request_def Let_def
        distinct_map_filter split: option.splits if_splits)

lemma kinv_sendData: "keepalive_inv s \<Longrightarrow> sendData q t d r s = Inr s' \<Longrightarrow> keepalive_inv s'"
  by (auto simp: sendData_def split: option.splits if_splits prod.splits
        dest: kinv_api_request[rotated 2])

lemma kinv_request_button:
  "keepalive_inv s \<Longrightarrow> request_button b s = Inr s' \<Longrightarrow> keepalive_inv s'"
  by (auto simp: request_button_def Let_def split: option.splits prod.splits
        dest: kinv_api_request[rotated 2])

lemma kinv_requestSimple_button:
  "keepalive_inv s \<Longrightarrow> requestSimple_button b s = Inr s' \<Longrightarrow> keepalive_inv s'"
  by (auto simp: requestSimple_button_def Let_def split: option.splits prod.splits
        dest: kinv_api_request[rotated 2])

lemma kinv_requestMenu_lambda:
  "keepalive_inv s \<Longrightarrow> requestMenu_lambda u t s = Inr s' \<Longrightarrow> keepalive_inv s'"
  by (auto simp: requestMenu_lambda_def Let_def split: option.splits prod.splits
        dest: kinv_api_request[rotated 2])

lemma kinv_request_button_done:
  "keepalive_inv s \<Longrightarrow> request_button_done b r s = Inr s' \<Longrightarrow> keepalive_inv s'"
  by (auto simp: request_button_done_def Let_def split: MTPresult.splits
        dest: kinv_show_panel[rotated])

lemma kinv_requestSimple_button_done:
  "keepalive_inv s \<Longrightarrow> requestSimple_button_done b r s = Inr s' \<Longrightarrow> keepalive_inv s'"
  by (auto simp: requestSimple_button_done_def Let_def split: MTPresult.splits
        dest: kinv_show_panel[rotated])

lemma kinv_requestMenu_done:
  "keepalive_inv s \<Longrightarrow> requestMenu_done t r s = Inr s' \<Longrightarrow> keepalive_inv s'"
  by (auto simp: requestMenu_done_def Let_def split: MTPresult.splits
        dest: kinv_show_panel[rotated])

lemma kinv_fails [simp]:
  "keepalive_inv s \<Longrightarrow> keepalive_inv (request_button_fail e s)"
  "keepalive_inv s \<Longrightarrow> keepalive_inv (requestSimple_button_fail e s)"
  "keepalive_inv s \<Longrightarrow> keepalive_inv (requestMenu_fail e s)"
  "keepalive_inv s \<Longrightarrow> keepalive_inv (resolveUsername_fail u e s)"
  "keepalive_inv s \<Longrightarrow> keepalive_inv (requestAddToMenu_fail s)"
  "keepalive_inv s \<Longrightarrow> keepalive_inv (toggleInMenu_fail s)"
  by (simp_all add: request_button_fail_def requestSimple_button_fail_def requestMenu_fail_def
        resolveUsername_fail_def requestAddToMenu_fail_def toggleInMenu_fail_def Let_def)

lemma kinv_open_done_run:
  "keepalive_inv s \<Longrightarrow> open_done_run d s = Inr s' \<Longrightarrow> keepalive_inv s'"
  by (cases d) (auto dest: kinv_request_button[rotated] kinv_requestSimple_button[rotated]
        kinv_requestMenu_lambda[rotated])

lemma kinv_confirmOpen:
  "keepalive_inv s \<Longrightarrow> confirmOpen c d s = Inr s' \<Longrightarrow> keepalive_inv s'"
  by (auto simp: confirmOpen_def split: option.splits if_splits dest: kinv_open_done_run[rotated])

lemma kinv_confirmOpen_callback:
  "keepalive_inv s \<Longrightarrow> confirmOpen_callback c d s = Inr s' \<Longrightarrow> keepalive_inv s'"
  by (auto simp: confirmOpen_callback_def split: option.splits dest: kinv_open_done_run[rotated])

lemma kinv_request:
  "keepalive_inv s \<Longrightarrow> request c p b button s = Inr s' \<Longrightarrow> keepalive_inv s'"
  by (auto simp: request_def Let_def split: option.splits if_splits
        dest!: kinv_confirmOpen[rotated] kinv_request_button[rotated])

lemma kinv_requestSimple:
  "keepalive_inv s \<Longrightarrow> requestSimple c b button s = Inr s' \<Longrightarrow> keepalive_inv s'"
  by (auto simp: requestSimple_def dest!: kinv_confirmOpen[rotated])

lemma kinv_requestMenu:
  "keepalive_inv s \<Longrightarrow> requestMenu c b s = Inr s' \<Longrightarrow> keepalive_inv s'"
  by (auto simp: requestMenu_def Let_def split: option.splits dest!: kinv_confirmOpen[rotated])


lemma kinv_open_lambda_run:
  "keepalive_inv s \<Longrightarrow> open_lambda_run l s = Inr (ok, s') \<Longrightarrow> keepalive_inv s'"
  by (cases l) (auto split: option.splits sum.splits dest!: kinv_request[rotated])

lemma kinv_api_request_snd:
  "keepalive_inv s \<Longrightarrow> h \<noteq> ProlongWebView_handler \<Longrightarrow> keepalive_inv (snd (api_request r h s))"
  by (cases "api_request r h s") (auto dest: kinv_api_request)

lemma kinv_toggleInMenu [simp]: "keepalive_inv s \<Longrightarrow> keepalive_inv (toggleInMenu b en cb s)"
  by (simp add: toggleInMenu_def kinv_api_request_snd)

lemma kinv_toggle_callback_run:
  "keepalive_inv s \<Longrightarrow> toggle_callback_run cb s = Inr s' \<Longrightarrow> keepalive_inv s'"
  by (cases cb) (auto split: option.splits sum.splits dest!: kinv_open_lambda_run[rotated])

lemma kinv_toggleInMenu_done:
  "keepalive_inv s \<Longrightarrow> toggleInMenu_done cb s = Inr s' \<Longrightarrow> keepalive_inv s'"
  by (auto simp: toggleInMenu_done_def Let_def split: option.splits
        dest!: kinv_toggle_callback_run[rotated])

lemma kinv_removeFromMenu [simp]: "keepalive_inv s \<Longrightarrow> keepalive_inv (removeFromMenu b s)"
  by (simp add: removeFromMenu_def)

lemma kinv_confirmAddToMenu [simp]: "keepalive_inv s \<Longrightarrow> keepalive_inv (confirmAddToMenu a cb s)"
  by (simp add: confirmAddToMenu_def Let_def split: option.splits)

lemma kinv_confirmAddToMenu_done [simp]:
  "keepalive_inv s \<Longrightarrow> keepalive_inv (confirmAddToMenu_done bx a cb s)"
  by (simp add: confirmAddToMenu_done_def Let_def)

lemma kinv_requestAddToMenu [simp]:
  "keepalive_inv s \<Longrightarrow> keepalive_inv (requestAddToMenu p b sc s)"
  by (auto simp: requestAddToMenu_def Let_def split: prod.splits option.splits
        dest!: kinv_api_request[rotated 2])

lemma kinv_requestAddToMenu_done:
  "keepalive_inv s \<Longrightarrow> requestAddToMenu_done r s = Inr s' \<Longrightarrow> keepalive_inv s'"
  by (auto simp: requestAddToMenu_done_def Let_def
        split: MTPresult.splits prod.splits option.splits if_splits sum.splits
        dest!: kinv_request[rotated])

lemma kinv_resolve_done_run:
  "keepalive_inv s \<Longrightarrow> resolve_done_run d p s = Inr s' \<Longrightarrow> keepalive_inv s'"
  by (cases d) (auto simp: Let_def split: option.splits)

lemma kinv_resolveUsername:
  "keepalive_inv s \<Longrightarrow> resolveUsername u d s = Inr s' \<Longrightarrow> keepalive_inv s'"
  by (auto simp: resolveUsername_def Let_def split: option.splits prod.splits
        dest!: kinv_resolve_done_run[rotated] kinv_api_request[rotated 2])

lemma kinv_resolveUsername_done:
  "keepalive_inv s \<Longrightarrow> resolveUsername_done u d r s = Inr s' \<Longrightarrow> keepalive_inv s'"
  by (auto simp: resolveUsername_done_def Let_def split: MTPresult.splits option.splits
        dest!: kinv_resolve_done_run[rotated])

lemma kinv_request_username:
  "keepalive_inv s \<Longrightarrow> request_username p u sc s = Inr s' \<Longrightarrow> keepalive_inv s'"
  by (auto simp: request_username_def resolve_def Let_def split: if_splits
        dest!: kinv_resolveUsername[rotated])

lemma kinv_handle_done:
  "keepalive_inv s \<Longrightarrow> map_of (api_pending s) i = Some h
     \<Longrightarrow> handle_done h r (api_complete i s) = Inr s' \<Longrightarrow> keepalive_inv s'"
  by (cases h)
     (auto dest!: kinv_request_button_done[rotated] kinv_requestSimple_button_done[rotated]
        kinv_requestMenu_done[rotated] kinv_resolveUsername_done[rotated]
        kinv_requestAddToMenu_done[rotated] kinv_toggleInMenu_done[rotated]
        intro: kinv_prolong_done)

lemma kinv_handle_fail:
  "keepalive_inv s \<Longrightarrow> keepalive_inv (handle_fail h e (api_complete i s))"
  by (cases h) auto

lemma kinv_box_confirmed:
  "keepalive_inv s \<Longrightarrow> box_confirmed bx s = Inr s' \<Longrightarrow> keepalive_inv s'"
  by (cases bx) (auto dest!: kinv_confirmOpen_callback[rotated])

lemma kinv_fire_timers:
  "keepalive_inv s \<Longrightarrow> fire_timers qs s = Inr s' \<Longrightarrow> keepalive_inv s'"
  by (induction qs arbitrary: s)
     (auto split: if_splits sum.splits dest: kinv_prolong_tick)

lemma kinv_step: "keepalive_inv s \<Longrightarrow> step e s = Inr s' \<Longrightarrow> keepalive_inv s'"
  by (cases e)
     (auto split: option.splits if_splits
        dest: kinv_request_username kinv_request kinv_requestSimple kinv_requestMenu
          kinv_handle_done kinv_box_confirmed kinv_sendData kinv_fire_timers
        intro: kinv_handle_fail)

lemma kinv_run: "keepalive_inv s \<Longrightarrow> run es s = Inr s' \<Longrightarrow> keepalive_inv s'"
  by (induction es arbitrary: s) (auto split: sum.splits dest: kinv_step)

lemma kinv_initial: "keepalive_inv (initial me d tr w th)"
  by (simp add: kinv_defs initial_def)

lemma at_most_one:
  assumes "distinct (map fst xs)" and "\<forall>x \<in> set xs. fst x = c"
  shows "length xs \<le> 1"
proof (cases xs)
  case Nil
  then show ?thesis by simp
next
  case (Cons x ys)
  with assms have "ys = []" by (cases ys) auto
  with Cons show ?thesis by simp
qed

lemma kinv_at_most_one:
  assumes "keepalive_inv s"
  shows "length (filter (\<lambda>p. snd p = ProlongWebView_handler) (api_pending s)) \<le> 1"
proof (rule at_most_one)
  show "distinct (map fst (filter (\<lambda>p. snd p = ProlongWebView_handler) (api_pending s)))"
    using assms by (simp add: kinv_defs distinct_map_filter)
  show "\<forall>x\<in>set (filter (\<lambda>p. snd p = ProlongWebView_handler) (api_pending s)).
          fst x = m_prolongId s"
    using assms by (auto simp: kinv_defs)
qed


lemma tick_is_prolong_tick:
  "keepalive_inv s \<Longrightarrow> m_panel s = Some p \<Longrightarrow> step TimerTick s = prolong_tick (p_queryId p) s"
  by (simp add: keepalive_inv_def panel_ok_def split: sum.splits)

lemma prolong_tick_result:
  assumes "keepalive_inv s" and "prolong_tick q s = Inr s'"
  shows "filter (\<lambda>p. snd p = ProlongWebView_handler) (api_pending s')
           = [(m_prolongId s', ProlongWebView_handler)]
         \<and> m_prolongId s' = Suc (api_count s)
         \<and> (\<exists>peer b. m_peer s = Some peer \<and> m_bot s = Some b
              \<and> trace s' = trace s @ [Send (m_prolongId s')
                   (MTPmessages_ProlongWebView [f_reply_to_msg_id, f_silent] peer b q
                      (m_replyToMsgId s))])"
proof -
  from assms(1) have none: "filter (\<lambda>p. snd p = ProlongWebView_handler)
      (api_pending (api_cancel (m_prolongId s) s)) = []"
    by (fastforce simp: kinv_defs api_cancel_def filter_empty_conv)
  from assms(2) none show ?thesis
    by (auto simp: prolong_tick_def api_request_def api_cancel_def Let_def
          split: option.splits if_splits)
qed

text \<open>
  C5.  In every state the orchestrator reaches from its construction, at most one
  prolong request is pending.  A shown panel owns exactly one keepalive timer, of period
  \<open>kProlongTimeout\<close>, that is 60 * 1000 milliseconds.  A tick of it cancels the prolong
  request \<open>_prolongId\<close> names and sends a new one, which is then the only pending
  prolong request and the one \<open>_prolongId\<close> names.
\<close>

theorem keepalive_single_prolong:
  "run es (initial me d tr w th) = Inr s \<Longrightarrow>
     length (filter (\<lambda>p. snd p = ProlongWebView_handler) (api_pending s)) \<le> 1
     \<and> (\<forall>p. m_panel s = Some p \<longrightarrow>
           lifetime p = [WebViewResultSent_filter (p_queryId p),
                         Timer_each (60 * 1000) (p_queryId p)])
     \<and> (\<forall>s'. m_panel s \<noteq> None \<and> step TimerTick s = Inr s' \<longrightarrow>
           filter (\<lambda>p. snd p = ProlongWebView_handler) (api_pending s')
             = [(m_prolongId s', ProlongWebView_handler)]
           \<and> m_prolongId s' = Suc (api_count s)
           \<and> (\<exists>peer b q. m_peer s = Some peer \<and> m_bot s = Some b
                \<and> trace s' = trace s @ [Send (m_prolongId s')
                     (MTPmessages_ProlongWebView [f_reply_to_msg_id, f_silent] peer b q
                        (m_replyToMsgId s))]))"
proof -
  assume r: "run es (initial me d tr w th) = Inr s"
  have inv: "keepalive_inv s"
    using kinv_initial r by (rule kinv_run)
  have one: "length (filter (\<lambda>p. snd p = ProlongWebView_handler) (api_pending s)) \<le> 1"
    using inv by (rule kinv_at_most_one)
  have panel: "\<forall>p. m_panel s = Some p \<longrightarrow>
           lifetime p = [WebViewResultSent_filter (p_queryId p),
                         Timer_each (60 * 1000) (p_queryId p)]"
    using inv by (auto simp: keepalive_inv_def panel_ok_def kProlongTimeout_def)
  have tick: "\<forall>s'. m_panel s \<noteq> None \<and> step TimerTick s = Inr s' \<longrightarrow>
           filter (\<lambda>p. snd p = ProlongWebView_handler) (api_pending s')
             = [(m_prolongId s', ProlongWebView_handler)]
           \<and> m_prolongId s' = Suc (api_count s)
           \<and> (\<exists>peer b q. m_peer s = Some peer \<and> m_bot s = Some b
                \<and> trace s' = trace s @ [Send (m_prolongId s')
                     (MTPmessages_ProlongWebView [f_reply_to_msg_id, f_silent] peer b q
                        (m_replyToMsgId s))])"
  proof (intro allI impI, elim conjE)
    fix s'
    assume "m_panel s \<noteq> None" and t: "step TimerTick s = Inr s'"
    then obtain p where p: "m_panel s = Some p" by auto
    with inv t have "prolong_tick (p_queryId p) s = Inr s'"
      by (simp only: tick_is_prolong_tick)
    from prolong_tick_result [OF inv this]
    show "filter (\<lambda>p. snd p = ProlongWebView_handler) (api_pending s')
             = [(m_prolongId s', ProlongWebView_handler)]
           \<and> m_prolongId s' = Suc (api_count s)
           \<and> (\<exists>peer b q. m_peer s = Some peer \<and> m_bot s = Some b
                \<and> trace s' = trace s @ [Send (m_prolongId s')
                     (MTPmessages_ProlongWebView [f_reply_to_msg_id, f_silent] peer b q
                        (m_replyToMsgId s))])"
      by blast
  qed
  from one panel tick show ?thesis by blast
qed

lemma ex_live_run:
  "run ex_live_events ex_initial = Inr (projr (run ex_live_events ex_initial))"
  by (simp add: ex_live_events_def ex_defs run_defs)

theorem keepalive_single_prolong_witness:
  "run ex_live_events ex_initial = Inr (projr (run ex_live_events ex_initial))
   \<and> api_pending (projr (run ex_live_events ex_initial)) = [(2, ProlongWebView_handler)]
   \<and> m_panel (projr (run ex_live_events ex_initial)) \<noteq> None
   \<and> (\<exists>s'. step TimerTick (projr (run ex_live_events ex_initial)) = Inr s'
          \<and> api_pending s' = [(3, ProlongWebView_handler)])
   \<and> length (filter (\<lambda>p. snd p = ProlongWebView_handler)
        (api_pending (projr (run ex_live_events ex_initial)))) \<le> 1"
  using keepalive_single_prolong [OF ex_live_run [unfolded ex_initial_def]]
  by (simp add: ex_live_events_def ex_defs run_defs)

subsection \<open>The consent prompt\<close>

text \<open>
  Nothing but the callback of the consent prompt writes the trust storage; the lemmas
  follow the call graph as before.
\<close>

lemmas tinv_defs = trust_is_def

lemma tinv_update [simp]:
  "trust_is X (s\<lparr>m_peer := a1\<rparr>) = trust_is X s"
  "trust_is X (s\<lparr>m_bot := a2\<rparr>) = trust_is X s"
  "trust_is X (s\<lparr>m_botUsername := a3\<rparr>) = trust_is X s"
  "trust_is X (s\<lparr>m_startCommand := a4\<rparr>) = trust_is X s"
  "trust_is X (s\<lparr>m_requestId := a5\<rparr>) = trust_is X s"
  "trust_is X (s\<lparr>m_prolongId := b5\<rparr>) = trust_is X s"
  "trust_is X (s\<lparr>m_panel := a6\<rparr>) = trust_is X s"
  "trust_is X (s\<lparr>m_botsRequestId := a7\<rparr>) = trust_is X s"
  "trust_is X (s\<lparr>m_botsHash := a8\<rparr>) = trust_is X s"
  "trust_is X (s\<lparr>m_attachBots := a9\<rparr>) = trust_is X s"
  "trust_is X (s\<lparr>m_addToMenuStartCommand := a10\<rparr>) = trust_is X s"
  "trust_is X (s\<lparr>m_addToMenuPeer := a11\<rparr>) = trust_is X s"
  "trust_is X (s\<lparr>m_addToMenuBot := a12\<rparr>) = trust_is X s"
  "trust_is X (s\<lparr>m_addToMenuId := a13\<rparr>) = trust_is X s"
  "trust_is X (s\<lparr>m_confirmAddBox := a14\<rparr>) = trust_is X s"
  "trust_is X (s\<lparr>ActiveWebViews := a15\<rparr>) = trust_is X s"
  "trust_is X (s\<lparr>trace := a16\<rparr>) = trust_is X s"
  "trust_is X (s\<lparr>session_data := a17\<rparr>) = trust_is X s"
  "trust_is X (s\<lparr>boxes := a19\<rparr>) = trust_is X s"
  "trust_is X (s\<lparr>api_pending := a20\<rparr>) = trust_is X s"
  "trust_is X (s\<lparr>api_count := a21\<rparr>) = trust_is X s"
  by (simp_all add: tinv_defs)

lemma tinv_api_request:
  "trust_is X s \<Longrightarrow> h \<noteq> ProlongWebView_handler \<Longrightarrow> api_request r h s = (i, s1)
     \<Longrightarrow> trust_is X s1"
  by (auto simp: api_request_def)

lemma tinv_api_cancel [simp]: "trust_is X (api_cancel i s) = trust_is X s"
  by (simp add: api_cancel_def)

lemma tinv_api_complete [simp]: "trust_is X (api_complete i s) = trust_is X s"
  by (simp add: api_complete_def)

lemma tinv_emit [simp]: "trust_is X (emit e s) = trust_is X s"
  by (simp add: emit_def)

lemma tinv_show_box [simp]: "trust_is X (show_box b s) = trust_is X s"
  by (simp add: show_box_def)

lemma tinv_hideLayer [simp]: "trust_is X (hideLayer c s) = trust_is X s"
  by (simp add: hideLayer_def)

lemma tinv_cancel [simp]: "trust_is X (cancel s) = trust_is X s"
  by (simp add: cancel_def Let_def)

lemma tinv_prolong_done:
  "trust_is X s \<Longrightarrow> map_of (api_pending s) i = Some ProlongWebView_handler
     \<Longrightarrow> trust_is X (prolong_done (api_complete i s))"
  by (simp add: prolong_done_def)

lemma tinv_requestBots [simp]: "trust_is X s \<Longrightarrow> trust_is X (requestBots s)"
  by (auto simp: requestBots_def split: prod.splits dest: tinv_api_request[rotated 2])

lemma tinv_requestBots_done [simp]: "trust_is X s \<Longrightarrow> trust_is X (requestBots_done r s)"
  by (simp add: requestBots_done_def Let_def split: MTPresult.splits prod.splits)

lemma tinv_requestBots_fail [simp]: "trust_is X s \<Longrightarrow> trust_is X (requestBots_fail s)"
  by (simp add: requestBots_fail_def)

lemma tinv_show_panel: "trust_is X s \<Longrightarrow> show_panel q u t s = Inr s' \<Longrightarrow> trust_is X s'"
  by (auto simp: show_panel_def started_def split: option.splits if_splits)

lemma tinv_prolong_tick: "trust_is X s \<Longrightarrow> prolong_tick q s = Inr s' \<Longrightarrow> trust_is X s'"
  by (auto simp: prolong_tick_def api_request_def api_cancel_def trust_is_def Let_def
        split: option.splits if_splits)

lemma tinv_sendData: "trust_is X s \<Longrightarrow> sendData q t d r s = Inr s' \<Longrightarrow> trust_is X s'"
  by (auto simp: sendData_def split: option.splits if_splits prod.splits
        dest: tinv_api_request[rotated 2])

lemma tinv_request_button:
  "trust_is X s \<Longrightarrow> request_button b s = Inr s' \<Longrightarrow> trust_is X s'"
  by (auto simp: request_button_def Let_def split: option.splits prod.splits
        dest: tinv_api_request[rotated 2])

lemma tinv_requestSimple_button:
  "trust_is X s \<Longrightarrow> requestSimple_button b s = Inr s' \<Longrightarrow> trust_is X s'"
  by (auto simp: requestSimple_button_def Let_def split: option.splits prod.splits
        dest: tinv_api_request[rotated 2])

lemma tinv_requestMenu_lambda:
  "trust_is X s \<Longrightarrow> requestMenu_lambda u t s = Inr s' \<Longrightarrow> trust_is X s'"
  by (auto simp: requestMenu_lambda_def Let_def split: option.splits prod.splits
        dest: tinv_api_request[rotated 2])

lemma tinv_request_button_done:
  "trust_is X s \<Longrightarrow> request_button_done b r s = Inr s' \<Longrightarrow> trust_is X s'"
  by (auto simp: request_button_done_def Let_def split: MTPresult.splits
        dest: tinv_show_panel[rotated])

lemma tinv_requestSimple_button_done:
  "trust_is X s \<Longrightarrow> requestSimple_button_done b r s = Inr s' \<Longrightarrow> trust_is X s'"
  by (auto simp: requestSimple_button_done_def Let_def split: MTPresult.splits
        dest: tinv_show_panel[rotated])

lemma tinv_requestMenu_done:
  "trust_is X s \<Longrightarrow> requestMenu_done t r s = Inr s' \<Longrightarrow> trust_is X s'"
  by (auto simp: requestMenu_done_def Let_def split: MTPresult.splits
        dest: tinv_show_panel[rotated])

lemma tinv_fails [simp]:
  "trust_is X s \<Longrightarrow> trust_is X (request_button_fail e s)"
  "trust_is X s \<Longrightarrow> trust_is X (requestSimple_button_fail e s)"
  "trust_is X s \<Longrightarrow> trust_is X (requestMenu_fail e s)"
  "trust_is X s \<Longrightarrow> trust_is X (resolveUsername_fail u e s)"
  "trust_is X s \<Longrightarrow> trust_is X (requestAddToMenu_fail s)"
  "trust_is X s \<Longrightarrow> trust_is X (toggleInMenu_fail s)"
  by (simp_all add: request_button_fail_def requestSimple_button_fail_def requestMenu_fail_def
        resolveUsername_fail_def requestAddToMenu_fail_def toggleInMenu_fail_def Let_def)

lemma tinv_open_done_run:
  "trust_is X s \<Longrightarrow> open_done_run d s = Inr s' \<Longrightarrow> trust_is X s'"
  by (cases d) (auto dest: tinv_request_button[rotated] tinv_requestSimple_button[rotated]
        tinv_requestMenu_lambda[rotated])

lemma tinv_confirmOpen:
  "trust_is X s \<Longrightarrow> confirmOpen c d s = Inr s' \<Longrightarrow> trust_is X s'"
  by (auto simp: confirmOpen_def split: option.splits if_splits dest: tinv_open_done_run[rotated])

lemma tinv_request:
  "trust_is X s \<Longrightarrow> request c p b button s = Inr s' \<Longrightarrow> trust_is X s'"
  by (auto simp: request_def Let_def split: option.splits if_splits
        dest!: tinv_confirmOpen[rotated] tinv_request_button[rotated])

lemma tinv_requestSimple:
  "trust_is X s \<Longrightarrow> requestSimple c b button s = Inr s' \<Longrightarrow> trust_is X s'"
  by (auto simp: requestSimple_def dest!: tinv_confirmOpen[rotated])

lemma tinv_requestMenu:
  "trust_is X s \<Longrightarrow> requestMenu c b s = Inr s' \<Longrightarrow> trust_is X s'"
  by (auto simp: requestMenu_def Let_def split: option.splits dest!: tinv_confirmOpen[rotated])


lemma tinv_open_lambda_run:
  "trust_is X s \<Longrightarrow> open_lambda_run l s = Inr (ok, s') \<Longrightarrow> trust_is X s'"
  by (cases l) (auto split: option.splits sum.splits dest!: tinv_request[rotated])

lemma tinv_api_request_snd:
  "trust_is X s \<Longrightarrow> h \<noteq> ProlongWebView_handler \<Longrightarrow> trust_is X (snd (api_request r h s))"
  by (cases "api_request r h s") (auto dest: tinv_api_request)

lemma tinv_toggleInMenu [simp]: "trust_is X s \<Longrightarrow> trust_is X (toggleInMenu b en cb s)"
  by (simp add: toggleInMenu_def tinv_api_request_snd)

lemma tinv_toggle_callback_run:
  "trust_is X s \<Longrightarrow> toggle_callback_run cb s = Inr s' \<Longrightarrow> trust_is X s'"
  by (cases cb) (auto split: option.splits sum.splits dest!: tinv_open_lambda_run[rotated])

lemma tinv_toggleInMenu_done:
  "trust_is X s \<Longrightarrow> toggleInMenu_done cb s = Inr s' \<Longrightarrow> trust_is X s'"
  by (auto simp: toggleInMenu_done_def Let_def split: option.splits
        dest!: tinv_toggle_callback_run[rotated])

lemma tinv_removeFromMenu [simp]: "trust_is X s \<Longrightarrow> trust_is X (removeFromMenu b s)"
  by (simp add: removeFromMenu_def)

lemma tinv_confirmAddToMenu [simp]: "trust_is X s \<Longrightarrow> trust_is X (confirmAddToMenu a cb s)"
  by (simp add: confirmAddToMenu_def Let_def split: option.splits)

lemma tinv_confirmAddToMenu_done [simp]:
  "trust_is X s \<Longrightarrow> trust_is X (confirmAddToMenu_done bx a cb s)"
  by (simp add: confirmAddToMenu_done_def Let_def)

lemma tinv_requestAddToMenu [simp]:
  "trust_is X s \<Longrightarrow> trust_is X (requestAddToMenu p b sc s)"
  by (auto simp: requestAddToMenu_def Let_def split: prod.splits option.splits
        dest!: tinv_api_request[rotated 2])

lemma tinv_requestAddToMenu_done:
  "trust_is X s \<Longrightarrow> requestAddToMenu_done r s = Inr s' \<Longrightarrow> trust_is X s'"
  by (auto simp: requestAddToMenu_done_def Let_def
        split: MTPresult.splits prod.splits option.splits if_splits sum.splits
        dest!: tinv_request[rotated])

lemma tinv_resolve_done_run:
  "trust_is X s \<Longrightarrow> resolve_done_run d p s = Inr s' \<Longrightarrow> trust_is X s'"
  by (cases d) (auto simp: Let_def split: option.splits)

lemma tinv_resolveUsername:
  "trust_is X s \<Longrightarrow> resolveUsername u d s = Inr s' \<Longrightarrow> trust_is X s'"
  by (auto simp: resolveUsername_def Let_def split: option.splits prod.splits
        dest!: tinv_resolve_done_run[rotated] tinv_api_request[rotated 2])

lemma tinv_resolveUsername_done:
  "trust_is X s \<Longrightarrow> resolveUsername_done u d r s = Inr s' \<Longrightarrow> trust_is X s'"
  by (auto simp: resolveUsername_done_def Let_def split: MTPresult.splits option.splits
        dest!: tinv_resolve_done_run[rotated])

lemma tinv_request_username:
  "trust_is X s \<Longrightarrow> request_username p u sc s = Inr s' \<Longrightarrow> trust_is X s'"
  by (auto simp: request_username_def resolve_def Let_def split: if_splits
        dest!: tinv_resolveUsername[rotated])

lemma tinv_handle_done:
  "trust_is X s \<Longrightarrow> map_of (api_pending s) i = Some h
     \<Longrightarrow> handle_done h r (api_complete i s) = Inr s' \<Longrightarrow> trust_is X s'"
  by (cases h)
     (auto dest!: tinv_request_button_done[rotated] tinv_requestSimple_button_done[rotated]
        tinv_requestMenu_done[rotated] tinv_resolveUsername_done[rotated]
        tinv_requestAddToMenu_done[rotated] tinv_toggleInMenu_done[rotated]
        intro: tinv_prolong_done)

lemma tinv_handle_fail:
  "trust_is X s \<Longrightarrow> trust_is X (handle_fail h e (api_complete i s))"
  by (cases h) auto

lemma tinv_box_confirmed:
  "trust_is X s \<Longrightarrow> box_confirmed (ConfirmAddBox w t a cb) s = Inr s' \<Longrightarrow> trust_is X s'"
  by auto

lemma tinv_fire_timers:
  "trust_is X s \<Longrightarrow> fire_timers qs s = Inr s' \<Longrightarrow> trust_is X s'"
  by (induction qs arbitrary: s)
     (auto split: if_splits sum.splits dest: tinv_prolong_tick)

lemma tinv_step:
  "trust_is X s \<Longrightarrow> \<not> is_consent_accept e \<Longrightarrow> step e s = Inr s' \<Longrightarrow> trust_is X s'"
proof (cases e)
  case (BoxConfirmed bx)
  assume "trust_is X s" "\<not> is_consent_accept e" "step e s = Inr s'"
  with BoxConfirmed show ?thesis
    by (cases bx) (auto split: if_splits)
qed (auto split: option.splits if_splits
        dest: tinv_request_username tinv_request tinv_requestSimple tinv_requestMenu
          tinv_handle_done tinv_sendData tinv_fire_timers
        intro: tinv_handle_fail)


text \<open>
  With a bot as the session context, \<open>confirmOpen\<close> runs the continuation at once
  when the bot is verified or is in the trust storage.  Otherwise it only shows the box
  whose text is the phrase \<open>lng_allow_bot_webview\<close> with the bot's name: the continuation
  is not run, nothing is sent and nothing is stored.  Confirming that box stores the
  orchestrator's bot in the trust storage before the continuation runs.  Declining only
  removes the box.  No event other than confirming that box changes the trust storage.
\<close>

lemma confirmOpen_gate:
  "m_bot s = Some b \<Longrightarrow>
   (isVerified (users (session_data s) b) \<or> b \<in> trustedOpenWebView s
      \<longrightarrow> confirmOpen c cont s = open_done_run cont s)
   \<and> (\<not> isVerified (users (session_data s) b) \<and> b \<notin> trustedOpenWebView s
      \<longrightarrow> confirmOpen c cont s
            = Inr (s\<lparr>boxes := boxes s @
                [ConfirmOpenBox c (lng_allow_bot_webview (name (users (session_data s) b)))
                   cont]\<rparr>))
   \<and> (\<forall>t s'. ConfirmOpenBox c t cont \<in> set (boxes s)
          \<and> step (BoxConfirmed (ConfirmOpenBox c t cont)) s = Inr s'
        \<longrightarrow> trustedOpenWebView s' = insert b (trustedOpenWebView s))
   \<and> (\<forall>bx. step (BoxDeclined bx) s = Inr (s\<lparr>boxes := remove1 bx (boxes s)\<rparr>))
   \<and> (\<forall>e s'. \<not> is_consent_accept e \<and> step e s = Inr s'
        \<longrightarrow> trustedOpenWebView s' = trustedOpenWebView s)"
proof -
  assume b: "m_bot s = Some b"
  have skip: "isVerified (users (session_data s) b) \<or> b \<in> trustedOpenWebView s
      \<longrightarrow> confirmOpen c cont s = open_done_run cont s"
    using b by (simp add: confirmOpen_def)
  have prompt: "\<not> isVerified (users (session_data s) b) \<and> b \<notin> trustedOpenWebView s
      \<longrightarrow> confirmOpen c cont s
            = Inr (s\<lparr>boxes := boxes s @
                [ConfirmOpenBox c (lng_allow_bot_webview (name (users (session_data s) b)))
                   cont]\<rparr>)"
    using b by (simp add: confirmOpen_def show_box_def)
  have accept: "\<forall>t s'. ConfirmOpenBox c t cont \<in> set (boxes s)
          \<and> step (BoxConfirmed (ConfirmOpenBox c t cont)) s = Inr s'
        \<longrightarrow> trustedOpenWebView s' = insert b (trustedOpenWebView s)"
  proof (intro allI impI, elim conjE)
    fix t s'
    assume "ConfirmOpenBox c t cont \<in> set (boxes s)"
      and "step (BoxConfirmed (ConfirmOpenBox c t cont)) s = Inr s'"
    with b have r: "open_done_run cont
        (hideLayer c (s\<lparr>trustedOpenWebView := insert b (trustedOpenWebView s)\<rparr>)) = Inr s'"
      by (simp add: confirmOpen_callback_def)
    have "trust_is (insert b (trustedOpenWebView s))
        (hideLayer c (s\<lparr>trustedOpenWebView := insert b (trustedOpenWebView s)\<rparr>))"
      by (simp add: trust_is_def hideLayer_def)
    from this r have "trust_is (insert b (trustedOpenWebView s)) s'"
      by (rule tinv_open_done_run)
    then show "trustedOpenWebView s' = insert b (trustedOpenWebView s)"
      by (simp add: trust_is_def)
  qed
  have decline: "\<forall>bx. step (BoxDeclined bx) s = Inr (s\<lparr>boxes := remove1 bx (boxes s)\<rparr>)"
    by simp
  have only: "\<forall>e s'. \<not> is_consent_accept e \<and> step e s = Inr s'
        \<longrightarrow> trustedOpenWebView s' = trustedOpenWebView s"
  proof (intro allI impI, elim conjE)
    fix e s'
    assume n: "\<not> is_consent_accept e" and st: "step e s = Inr s'"
    have "trust_is (trustedOpenWebView s) s" by (simp add: trust_is_def)
    from this n st have "trust_is (trustedOpenWebView s) s'" by (rule tinv_step)
    then show "trustedOpenWebView s' = trustedOpenWebView s" by (simp add: trust_is_def)
  qed
  from skip prompt accept decline only show ?thesis by blast
qed

text \<open>
  C6.  The callback of the consent prompt stores \<open>_bot\<close> as it is when the prompt is
  accepted, not the bot the prompt was shown for.  In the example the prompt names
  \<open>Good\<close> (user 5), the answer to the registration-status request makes user 6
  (\<open>Evil\<close>) the orchestrator's bot while the prompt is shown, and accepting the prompt
  stores user 6 in the trust storage, which was empty, and sends a simple open request
  for user 6.
\<close>

theorem consent_for_one_bot_trusts_another:
  "map_sum id boxes (run (butlast ex_consent_race_events) ex_initial2)
     = Inr [ConfirmOpenBox 3 (lng_allow_bot_webview ''Good'') (RequestSimple_done ex_button)]
   \<and> name (users ex_two_bots 5) = ''Good'' \<and> name (users ex_two_bots 6) = ''Evil''
   \<and> map_sum id m_bot (run (butlast ex_consent_race_events) ex_initial2) = Inr (Some 6)
   \<and> map_sum id trustedOpenWebView (run (butlast ex_consent_race_events) ex_initial2) = Inr {}
   \<and> map_sum id trustedOpenWebView (run ex_consent_race_events ex_initial2) = Inr {6}
   \<and> map_sum id (\<lambda>s. last (trace s)) (run ex_consent_race_events ex_initial2)
     = Inr (Send 4 (MTPmessages_RequestSimpleWebView [f_theme_params] 6 ''https://a'' ''{}''))"
  by (simp add: ex_consent_race_events_def ex_defs2 run_defs2
        confirmOpen_callback_def hideLayer_def show_box_def)

subsection \<open>Opening again while a session is shown\<close>

text \<open>
  C1.  The general open, called again for the same peer and bot while the panel is
  shown, activates the panel and then goes on: it calls \<open>cancel\<close>, which destroys the
  panel, and sends a second open request.  In the example the trace after the second
  call is the first request, the activation, and a second request; the panel is gone
  and the second request is pending.
\<close>

theorem request_while_live_reopens:
  "map_sum id m_panel (run (butlast ex_reopen_events) ex_initial)
     = Inr (Some \<lparr>p_url = ''https://u'', p_title = 5, p_bottom = ''@botx'', p_queryId = 42,
                 p_buttonText = ''Open'',
                 lifetime = [WebViewResultSent_filter 42, Timer_each 60000 42]\<rparr>)
   \<and> map_sum id trace (run ex_reopen_events ex_initial)
     = Inr [Send 1 (MTPmessages_RequestWebView [f_theme_params, f_url] (OtherPeer 7) 5
                     ''https://a'' [] ''{}''),
            RequestActivate,
            Send 2 (MTPmessages_RequestWebView [f_theme_params, f_url] (OtherPeer 7) 5
                     ''https://a'' [] ''{}'')]
   \<and> map_sum id m_panel (run ex_reopen_events ex_initial) = Inr None
   \<and> map_sum id api_pending (run ex_reopen_events ex_initial)
     = Inr [(2, RequestWebView_handler ex_button)]"
  by (simp add: ex_reopen_events_def ex_defs run_defs)

text \<open>
  The open by username returns after activating the panel: with the same peer, username
  and start parameter it only records the activation.
\<close>

lemma request_username_while_live:
  "botUsername \<noteq> [] \<Longrightarrow> m_peer s = Some peer \<Longrightarrow> m_bot s = Some b \<Longrightarrow> m_panel s \<noteq> None
   \<Longrightarrow> toLower (username (users (session_data s) b)) = toLower botUsername
   \<Longrightarrow> m_startCommand s = startCommand
   \<Longrightarrow> request_username peer botUsername startCommand s = Inr (emit RequestActivate s)"
  by (simp add: request_username_def)

subsection \<open>The keepalive of a simple session\<close>

text \<open>
  \<open>started\<close> does not look at the query id.  In the example a simple open is answered
  and the timer ticks once: the panel has the timer for the query id 0, and the tick
  sends a prolong request with the query id 0.
\<close>

theorem simple_session_keepalive_counterexample:
  "map_sum id m_panel (run (butlast ex_simple_events) ex_initial)
     = Inr (Some \<lparr>p_url = ''https://u'', p_title = 5, p_bottom = ''@botx'', p_queryId = 0,
                 p_buttonText = ''Open'',
                 lifetime = [WebViewResultSent_filter 0, Timer_each 60000 0]\<rparr>)
   \<and> map_sum id trace (run ex_simple_events ex_initial)
     = Inr [Send 1 (MTPmessages_RequestSimpleWebView [f_theme_params] 5 ''https://a'' ''{}''),
            Send 2 (MTPmessages_ProlongWebView [f_reply_to_msg_id, f_silent]
                     (UserPeer 5) 5 0 0)]
   \<and> map_sum id api_pending (run ex_simple_events ex_initial)
     = Inr [(2, ProlongWebView_handler)]"
  by (simp add: ex_simple_events_def ex_defs run_defs)

text \<open>
  C2 as the code has it.  When the pending simple open request is answered, the panel is
  shown with the query id 0 and owns the keepalive timer of period \<open>kProlongTimeout\<close>
  for that id; a tick of it sends a prolong request with the query id 0, which is then
  pending and named by \<open>_prolongId\<close>.
\<close>

theorem simple_session_runs_keepalive:
  "map_of (api_pending s) i = Some (RequestSimpleWebView_handler button) \<Longrightarrow>
   m_bot s = Some b \<Longrightarrow> m_peer s = Some peer \<Longrightarrow>
   \<exists>s1 p. step (Done i (MTPsimpleWebViewResultUrl url)) s = Inr s1
     \<and> m_panel s1 = Some p \<and> p_queryId p = 0
     \<and> lifetime p = [WebViewResultSent_filter 0, Timer_each kProlongTimeout 0]
     \<and> (\<exists>s2. step TimerTick s1 = Inr s2
           \<and> trace s2 = trace s1 @ [Send (Suc (api_count s1))
                (MTPmessages_ProlongWebView [f_reply_to_msg_id, f_silent] peer b 0
                   (m_replyToMsgId s))]
           \<and> m_prolongId s2 = Suc (api_count s1)
           \<and> (Suc (api_count s1), ProlongWebView_handler) \<in> set (api_pending s2))"
  by (auto simp: requestSimple_button_done_def show_panel_def started_def prolong_tick_def
        api_complete_def api_cancel_def api_request_def Let_def)

theorem simple_session_runs_keepalive_witness:
  "map_of (api_pending ex_simple_opening) 1 = Some (RequestSimpleWebView_handler ex_button)
   \<and> m_bot ex_simple_opening = Some 5 \<and> m_peer ex_simple_opening = Some (UserPeer 5)
   \<and> (\<exists>s1 p. step (Done 1 (MTPsimpleWebViewResultUrl ''https://u'')) ex_simple_opening = Inr s1
        \<and> m_panel s1 = Some p \<and> p_queryId p = 0
        \<and> lifetime p = [WebViewResultSent_filter 0, Timer_each kProlongTimeout 0]
        \<and> (\<exists>s2. step TimerTick s1 = Inr s2
              \<and> trace s2 = trace s1 @ [Send (Suc (api_count s1))
                   (MTPmessages_ProlongWebView [f_reply_to_msg_id, f_silent] (UserPeer 5) 5 0
                      (m_replyToMsgId ex_simple_opening))]
              \<and> m_prolongId s2 = Suc (api_count s1)
              \<and> (Suc (api_count s1), ProlongWebView_handler) \<in> set (api_pending s2)))"
proof -
  have a: "map_of (api_pending ex_simple_opening) 1
             = Some (RequestSimpleWebView_handler ex_button)"
    by (simp add: ex_simple_opening_def ex_defs)
  have b: "m_bot ex_simple_opening = Some 5"
    by (simp add: ex_simple_opening_def ex_defs)
  have c: "m_peer ex_simple_opening = Some (UserPeer 5)"
    by (simp add: ex_simple_opening_def ex_defs)
  from a b c simple_session_runs_keepalive [OF a b c, where url = "''https://u''"]
  show ?thesis by blast
qed

subsection \<open>Supersession\<close>

text \<open>
  Every member function and every handler preserves \<open>open_tracked\<close>, except the two
  events of \<open>breaks_tracking\<close>; the functions that send an open or resolve request do so
  from \<open>open_idle\<close> states.
\<close>

lemmas oinv_defs = open_idle_def open_tracked_def ids_ok_def

lemma open_idle_tracked: "open_idle s \<Longrightarrow> open_tracked s"
  by (simp add: open_idle_def)

lemma oinv_update [simp]:
  "open_tracked (s\<lparr>m_peer := a1\<rparr>) = open_tracked s"
  "open_tracked (s\<lparr>m_bot := a2\<rparr>) = open_tracked s"
  "open_tracked (s\<lparr>m_botUsername := a3\<rparr>) = open_tracked s"
  "open_tracked (s\<lparr>m_startCommand := a4\<rparr>) = open_tracked s"
  "open_tracked (s\<lparr>m_prolongId := a5\<rparr>) = open_tracked s"
  "open_tracked (s\<lparr>m_panel := a6\<rparr>) = open_tracked s"
  "open_tracked (s\<lparr>m_botsRequestId := a7\<rparr>) = open_tracked s"
  "open_tracked (s\<lparr>m_botsHash := a8\<rparr>) = open_tracked s"
  "open_tracked (s\<lparr>m_attachBots := a9\<rparr>) = open_tracked s"
  "open_tracked (s\<lparr>m_addToMenuStartCommand := a10\<rparr>) = open_tracked s"
  "open_tracked (s\<lparr>m_addToMenuPeer := a11\<rparr>) = open_tracked s"
  "open_tracked (s\<lparr>m_addToMenuBot := a12\<rparr>) = open_tracked s"
  "open_tracked (s\<lparr>m_addToMenuId := a13\<rparr>) = open_tracked s"
  "open_tracked (s\<lparr>m_confirmAddBox := a14\<rparr>) = open_tracked s"
  "open_tracked (s\<lparr>ActiveWebViews := a15\<rparr>) = open_tracked s"
  "open_tracked (s\<lparr>trace := a16\<rparr>) = open_tracked s"
  "open_tracked (s\<lparr>session_data := a17\<rparr>) = open_tracked s"
  "open_tracked (s\<lparr>trustedOpenWebView := a18\<rparr>) = open_tracked s"
  "open_tracked (s\<lparr>boxes := a19\<rparr>) = open_tracked s"
  by (simp_all add: oinv_defs)

lemma idle_update [simp]:
  "open_idle (s\<lparr>m_peer := a1\<rparr>) = open_idle s"
  "open_idle (s\<lparr>m_bot := a2\<rparr>) = open_idle s"
  "open_idle (s\<lparr>m_botUsername := a3\<rparr>) = open_idle s"
  "open_idle (s\<lparr>m_startCommand := a4\<rparr>) = open_idle s"
  "open_idle (s\<lparr>m_prolongId := a5\<rparr>) = open_idle s"
  "open_idle (s\<lparr>m_panel := a6\<rparr>) = open_idle s"
  "open_idle (s\<lparr>m_botsRequestId := a7\<rparr>) = open_idle s"
  "open_idle (s\<lparr>m_botsHash := a8\<rparr>) = open_idle s"
  "open_idle (s\<lparr>m_attachBots := a9\<rparr>) = open_idle s"
  "open_idle (s\<lparr>m_addToMenuStartCommand := a10\<rparr>) = open_idle s"
  "open_idle (s\<lparr>m_addToMenuPeer := a11\<rparr>) = open_idle s"
  "open_idle (s\<lparr>m_addToMenuBot := a12\<rparr>) = open_idle s"
  "open_idle (s\<lparr>m_addToMenuId := a13\<rparr>) = open_idle s"
  "open_idle (s\<lparr>m_confirmAddBox := a14\<rparr>) = open_idle s"
  "open_idle (s\<lparr>ActiveWebViews := a15\<rparr>) = open_idle s"
  "open_idle (s\<lparr>trace := a16\<rparr>) = open_idle s"
  "open_idle (s\<lparr>session_data := a17\<rparr>) = open_idle s"
  "open_idle (s\<lparr>trustedOpenWebView := a18\<rparr>) = open_idle s"
  "open_idle (s\<lparr>boxes := a19\<rparr>) = open_idle s"
  by (simp_all add: open_idle_def)

lemma idle_zero [simp]: "open_idle s \<Longrightarrow> open_idle (s\<lparr>m_requestId := 0\<rparr>)"
  by (fastforce simp: oinv_defs)

lemma oinv_api_request:
  "open_tracked s \<Longrightarrow> \<not> is_open_handler h \<Longrightarrow> api_request r h s = (i, s1) \<Longrightarrow> open_tracked s1"
  by (fastforce simp: oinv_defs api_request_def)

lemma idle_api_request:
  "open_idle s \<Longrightarrow> \<not> is_open_handler h \<Longrightarrow> api_request r h s = (i, s1) \<Longrightarrow> open_idle s1"
  by (fastforce simp: oinv_defs api_request_def)

lemma idle_api_request_open:
  "open_idle s \<Longrightarrow> api_request r h s = (i, s1) \<Longrightarrow> open_tracked (s1\<lparr>m_requestId := i\<rparr>)"
  by (fastforce simp: oinv_defs api_request_def)

lemma oinv_api_cancel [simp]: "open_tracked s \<Longrightarrow> open_tracked (api_cancel i s)"
  by (fastforce simp: oinv_defs api_cancel_def distinct_map_filter)

lemma idle_api_cancel [simp]: "open_idle s \<Longrightarrow> open_idle (api_cancel i s)"
  by (fastforce simp: oinv_defs api_cancel_def distinct_map_filter)

lemma oinv_api_complete [simp]: "open_tracked s \<Longrightarrow> open_tracked (api_complete i s)"
  by (fastforce simp: oinv_defs api_complete_def distinct_map_filter)

lemma idle_api_complete [simp]: "open_idle s \<Longrightarrow> open_idle (api_complete i s)"
  by (fastforce simp: oinv_defs api_complete_def distinct_map_filter)

lemma idle_after_cancel_tracked:
  "open_tracked s \<Longrightarrow> open_idle (api_cancel (m_requestId s) (s\<lparr>m_requestId := 0\<rparr>))"
  by (fastforce simp: oinv_defs api_cancel_def distinct_map_filter)

lemma idle_after_complete:
  assumes "open_tracked s" and "map_of (api_pending s) i = Some h" and "is_open_handler h"
  shows "open_idle ((api_complete i s)\<lparr>m_requestId := 0\<rparr>)"
proof -
  from assms(2) have "(i, h) \<in> set (api_pending s)" by (rule map_of_SomeD)
  with assms(1,3) have i: "i = m_requestId s" by (auto simp: oinv_defs)
  have "\<And>j g. (j, g) \<in> set (api_pending s) \<Longrightarrow> is_open_handler g \<Longrightarrow> j = i"
    using assms(1) i by (auto simp: oinv_defs)
  then show ?thesis
    using assms(1)
    by (fastforce simp: oinv_defs api_complete_def distinct_map_filter)
qed

lemma oinv_emit [simp]: "open_tracked (emit e s) = open_tracked s"
  by (simp add: emit_def)

lemma idle_emit [simp]: "open_idle (emit e s) = open_idle s"
  by (simp add: emit_def)

lemma oinv_show_box [simp]: "open_tracked (show_box b s) = open_tracked s"
  by (simp add: show_box_def)

lemma idle_show_box [simp]: "open_idle (show_box b s) = open_idle s"
  by (simp add: show_box_def)

lemma idle_hideLayer [simp]: "open_idle (hideLayer c s) = open_idle s"
  by (simp add: hideLayer_def)

lemma idle_cancel [simp]: "open_tracked s \<Longrightarrow> open_idle (cancel s)"
  by (fastforce simp: oinv_defs cancel_def api_cancel_def Let_def distinct_map_filter)

lemma oinv_cancel [simp]: "open_tracked s \<Longrightarrow> open_tracked (cancel s)"
  by (simp add: open_idle_tracked)

lemma oinv_requestBots [simp]: "open_tracked s \<Longrightarrow> open_tracked (requestBots s)"
  by (auto simp: requestBots_def split: prod.splits dest: oinv_api_request[rotated 2])

lemma idle_requestBots [simp]: "open_idle s \<Longrightarrow> open_idle (requestBots s)"
  by (auto simp: requestBots_def split: prod.splits dest: idle_api_request[rotated 2])

lemma oinv_requestBots_done [simp]: "open_tracked s \<Longrightarrow> open_tracked (requestBots_done r s)"
  by (simp add: requestBots_done_def Let_def split: MTPresult.splits prod.splits)

lemma oinv_requestBots_fail [simp]: "open_tracked s \<Longrightarrow> open_tracked (requestBots_fail s)"
  by (simp add: requestBots_fail_def)

lemma idle_show_panel: "open_idle s \<Longrightarrow> show_panel q u t s = Inr s' \<Longrightarrow> open_idle s'"
  by (auto simp: show_panel_def started_def split: option.splits if_splits)

lemma oinv_prolong_tick: "open_tracked s \<Longrightarrow> prolong_tick q s = Inr s' \<Longrightarrow> open_tracked s'"
  by (auto simp: prolong_tick_def Let_def split: option.splits prod.splits
        dest!: oinv_api_request[rotated 2])

lemma oinv_sendData: "open_tracked s \<Longrightarrow> sendData q t d r s = Inr s' \<Longrightarrow> open_tracked s'"
  by (auto simp: sendData_def split: option.splits if_splits prod.splits
        dest: oinv_api_request[rotated 2])

lemma idle_request_button:
  "open_idle s \<Longrightarrow> request_button b s = Inr s' \<Longrightarrow> open_tracked s'"
  by (auto simp: request_button_def Let_def split: option.splits prod.splits
        dest: idle_api_request_open[rotated])

lemma idle_requestSimple_button:
  "open_idle s \<Longrightarrow> requestSimple_button b s = Inr s' \<Longrightarrow> open_tracked s'"
  by (auto simp: requestSimple_button_def Let_def split: option.splits prod.splits
        dest: idle_api_request_open[rotated])

lemma idle_requestMenu_lambda:
  "open_idle s \<Longrightarrow> requestMenu_lambda u t s = Inr s' \<Longrightarrow> open_tracked s'"
  by (auto simp: requestMenu_lambda_def Let_def split: option.splits prod.splits
        dest: idle_api_request_open[rotated])

lemma idle_open_done_run:
  "open_idle s \<Longrightarrow> open_done_run d s = Inr s' \<Longrightarrow> open_tracked s'"
  by (cases d) (auto dest: idle_request_button[rotated] idle_requestSimple_button[rotated]
        idle_requestMenu_lambda[rotated])

lemma idle_confirmOpen:
  "open_idle s \<Longrightarrow> confirmOpen c d s = Inr s' \<Longrightarrow> open_tracked s'"
  by (auto simp: confirmOpen_def open_idle_tracked split: option.splits if_splits
        dest: idle_open_done_run[rotated])

lemma idle_confirmOpen_callback:
  "open_idle s \<Longrightarrow> confirmOpen_callback c d s = Inr s' \<Longrightarrow> open_tracked s'"
  by (auto simp: confirmOpen_callback_def split: option.splits dest: idle_open_done_run[rotated])

lemma oinv_request:
  "open_tracked s \<Longrightarrow> request c p b button s = Inr s' \<Longrightarrow> open_tracked s'"
  by (auto simp: request_def Let_def split: option.splits if_splits
        dest!: idle_confirmOpen[rotated] idle_request_button[rotated])

lemma oinv_requestSimple:
  "open_tracked s \<Longrightarrow> requestSimple c b button s = Inr s' \<Longrightarrow> open_tracked s'"
  by (auto simp: requestSimple_def dest!: idle_confirmOpen[rotated])

lemma oinv_requestMenu:
  "open_tracked s \<Longrightarrow> requestMenu c b s = Inr s' \<Longrightarrow> open_tracked s'"
  by (auto simp: requestMenu_def Let_def split: option.splits dest!: idle_confirmOpen[rotated])

lemma oinv_request_button_done:
  "open_tracked s \<Longrightarrow> map_of (api_pending s) i = Some (RequestWebView_handler b)
     \<Longrightarrow> request_button_done b r (api_complete i s) = Inr s' \<Longrightarrow> open_tracked s'"
  by (auto simp: request_button_done_def Let_def split: MTPresult.splits
        dest!: idle_after_complete idle_show_panel[rotated] intro: open_idle_tracked)

lemma oinv_requestSimple_button_done:
  "open_tracked s \<Longrightarrow> map_of (api_pending s) i = Some (RequestSimpleWebView_handler b)
     \<Longrightarrow> requestSimple_button_done b r (api_complete i s) = Inr s' \<Longrightarrow> open_tracked s'"
  by (auto simp: requestSimple_button_done_def Let_def split: MTPresult.splits
        dest!: idle_after_complete idle_show_panel[rotated] intro: open_idle_tracked)

lemma oinv_requestMenu_done:
  "open_tracked s \<Longrightarrow> map_of (api_pending s) i = Some (RequestMenu_handler t)
     \<Longrightarrow> requestMenu_done t r (api_complete i s) = Inr s' \<Longrightarrow> open_tracked s'"
  by (auto simp: requestMenu_done_def Let_def split: MTPresult.splits
        dest!: idle_after_complete idle_show_panel[rotated] intro: open_idle_tracked)

lemma oinv_open_fails:
  "open_tracked s \<Longrightarrow> map_of (api_pending s) i = Some (RequestWebView_handler b)
     \<Longrightarrow> open_tracked (request_button_fail e (api_complete i s))"
  "open_tracked s \<Longrightarrow> map_of (api_pending s) i = Some (RequestSimpleWebView_handler b)
     \<Longrightarrow> open_tracked (requestSimple_button_fail e (api_complete i s))"
  "open_tracked s \<Longrightarrow> map_of (api_pending s) i = Some (RequestMenu_handler t)
     \<Longrightarrow> open_tracked (requestMenu_fail e (api_complete i s))"
  "open_tracked s \<Longrightarrow> map_of (api_pending s) i = Some (ResolveUsername_handler u d)
     \<Longrightarrow> open_tracked (resolveUsername_fail u e (api_complete i s))"
  by (auto simp: request_button_fail_def requestSimple_button_fail_def requestMenu_fail_def
        resolveUsername_fail_def Let_def
        dest!: idle_after_complete intro!: open_idle_tracked)

lemma oinv_other_fails [simp]:
  "open_tracked s \<Longrightarrow> open_tracked (requestAddToMenu_fail s)"
  "open_tracked s \<Longrightarrow> open_tracked (toggleInMenu_fail s)"
  by (simp_all add: requestAddToMenu_fail_def toggleInMenu_fail_def)

lemma oinv_open_lambda_run:
  "open_tracked s \<Longrightarrow> open_lambda_run l s = Inr (ok, s') \<Longrightarrow> open_tracked s'"
  by (cases l) (auto split: option.splits sum.splits dest!: oinv_request[rotated])

lemma oinv_api_request_snd:
  "open_tracked s \<Longrightarrow> \<not> is_open_handler h \<Longrightarrow> open_tracked (snd (api_request r h s))"
  by (cases "api_request r h s") (auto dest: oinv_api_request)

lemma oinv_toggleInMenu [simp]: "open_tracked s \<Longrightarrow> open_tracked (toggleInMenu b en cb s)"
  by (simp add: toggleInMenu_def oinv_api_request_snd)

lemma oinv_toggle_callback_run:
  "open_tracked s \<Longrightarrow> toggle_callback_run cb s = Inr s' \<Longrightarrow> open_tracked s'"
  by (cases cb) (auto split: option.splits sum.splits dest!: oinv_open_lambda_run[rotated])

lemma idle_toggleInMenu_done:
  "open_idle s \<Longrightarrow> toggleInMenu_done cb s = Inr s' \<Longrightarrow> open_tracked s'"
  by (auto simp: toggleInMenu_done_def Let_def open_idle_tracked split: option.splits
        dest!: oinv_toggle_callback_run[rotated])

lemma oinv_removeFromMenu [simp]: "open_tracked s \<Longrightarrow> open_tracked (removeFromMenu b s)"
  by (simp add: removeFromMenu_def)

lemma oinv_confirmAddToMenu [simp]: "open_tracked s \<Longrightarrow> open_tracked (confirmAddToMenu a cb s)"
  by (simp add: confirmAddToMenu_def Let_def split: option.splits)

lemma oinv_confirmAddToMenu_done [simp]:
  "open_tracked s \<Longrightarrow> open_tracked (confirmAddToMenu_done bx a cb s)"
  by (simp add: confirmAddToMenu_done_def Let_def)

lemma oinv_requestAddToMenu [simp]:
  "open_tracked s \<Longrightarrow> open_tracked (requestAddToMenu p b sc s)"
  by (auto simp: requestAddToMenu_def Let_def split: prod.splits option.splits
        dest!: oinv_api_request[rotated 2])

lemma oinv_requestAddToMenu_done:
  "open_tracked s \<Longrightarrow> requestAddToMenu_done r s = Inr s' \<Longrightarrow> open_tracked s'"
  by (auto simp: requestAddToMenu_done_def Let_def
        split: MTPresult.splits prod.splits option.splits if_splits sum.splits
        dest!: oinv_request[rotated])

lemma oinv_resolve_done_run:
  "open_tracked s \<Longrightarrow> resolve_done_run d p s = Inr s' \<Longrightarrow> open_tracked s'"
  by (cases d) (auto simp: Let_def split: option.splits)

lemma oinv_resolveUsername:
  "open_tracked s \<Longrightarrow> resolveUsername u d s = Inr s' \<Longrightarrow> open_tracked s'"
  by (auto simp: resolveUsername_def Let_def split: option.splits prod.splits
        dest!: oinv_resolve_done_run[rotated]
        dest: idle_api_request_open[OF idle_after_cancel_tracked])

lemma oinv_resolveUsername_done:
  "open_tracked s \<Longrightarrow> map_of (api_pending s) i = Some (ResolveUsername_handler u d)
     \<Longrightarrow> resolveUsername_done u d r (api_complete i s) = Inr s' \<Longrightarrow> open_tracked s'"
  by (auto simp: resolveUsername_done_def Let_def split: MTPresult.splits option.splits
        dest!: idle_after_complete oinv_resolve_done_run[rotated] intro: open_idle_tracked)

lemma oinv_request_username:
  "open_tracked s \<Longrightarrow> request_username p u sc s = Inr s' \<Longrightarrow> open_tracked s'"
  by (auto simp: request_username_def resolve_def Let_def split: if_splits
        dest!: oinv_resolveUsername[rotated])

lemma oinv_handle_done:
  assumes "open_tracked s" and "map_of (api_pending s) i = Some h"
    and "\<And>cb. h = ToggleBotInAttachMenu_handler cb \<Longrightarrow> m_requestId s = 0"
    and "handle_done h r (api_complete i s) = Inr s'"
  shows "open_tracked s'"
proof (cases h)
  case (ToggleBotInAttachMenu_handler cb)
  with assms(1,3) have "open_idle s"
    by (simp add: open_idle_def)
  then have "open_idle (api_complete i s)"
    by (rule idle_api_complete)
  with assms(4) ToggleBotInAttachMenu_handler show ?thesis
    by (auto dest: idle_toggleInMenu_done)
next
  case ProlongWebView_handler
  with assms(1,4) show ?thesis by (auto simp: prolong_done_def)
qed (use assms(1,2,4) in \<open>auto dest: oinv_request_button_done oinv_requestSimple_button_done
      oinv_requestMenu_done oinv_resolveUsername_done oinv_requestAddToMenu_done[rotated]\<close>)

lemma oinv_handle_fail:
  "open_tracked s \<Longrightarrow> map_of (api_pending s) i = Some h
     \<Longrightarrow> open_tracked (handle_fail h e (api_complete i s))"
  by (cases h) (auto intro: oinv_open_fails)

lemma oinv_box_confirmed:
  assumes "open_tracked s"
    and "\<And>c t d. bx = ConfirmOpenBox c t d \<Longrightarrow> m_requestId s = 0"
    and "box_confirmed bx s = Inr s'"
  shows "open_tracked s'"
proof (cases bx)
  case (ConfirmOpenBox c t d)
  with assms(1,2) have "open_idle s" by (simp add: open_idle_def)
  with assms(3) ConfirmOpenBox show ?thesis
    by (auto dest: idle_confirmOpen_callback)
next
  case (ConfirmAddBox w t a cb)
  with assms(1,3) show ?thesis by auto
qed

lemma oinv_fire_timers:
  "open_tracked s \<Longrightarrow> fire_timers qs s = Inr s' \<Longrightarrow> open_tracked s'"
  by (induction qs arbitrary: s)
     (auto split: if_splits sum.splits dest: oinv_prolong_tick)

lemma oinv_step:
  assumes "open_tracked s" and "\<not> breaks_tracking s e" and "step e s = Inr s'"
  shows "open_tracked s'"
proof (cases e)
  case (Done i r)
  show ?thesis
  proof (cases "map_of (api_pending s) i")
    case None
    with assms(1,3) Done show ?thesis by simp
  next
    case (Some h)
    show ?thesis
    proof (cases "accepts h r")
      case True
      with assms(3) Done Some have "handle_done h r (api_complete i s) = Inr s'" by simp
      moreover have "\<And>cb. h = ToggleBotInAttachMenu_handler cb \<Longrightarrow> m_requestId s = 0"
        using assms(2) Done Some by simp
      ultimately show ?thesis
        using assms(1) Some by (auto intro: oinv_handle_done)
    next
      case False
      with assms(1,3) Done Some show ?thesis by simp
    qed
  qed
next
  case (BoxConfirmed bx)
  show ?thesis
  proof (cases "bx \<in> set (boxes s)")
    case True
    with assms(3) BoxConfirmed have "box_confirmed bx s = Inr s'" by simp
    moreover have "\<And>c t d. bx = ConfirmOpenBox c t d \<Longrightarrow> m_requestId s = 0"
      using assms(2) BoxConfirmed by simp
    ultimately show ?thesis
      using assms(1) by (auto intro: oinv_box_confirmed)
  next
    case False
    with assms(1,3) BoxConfirmed show ?thesis by simp
  qed
qed (use assms(1,3) in \<open>auto split: option.splits if_splits
        dest: oinv_request_username oinv_request oinv_requestSimple oinv_requestMenu
          oinv_sendData oinv_fire_timers
        intro: oinv_handle_fail\<close>)

lemma oinv_run:
  "open_tracked s \<Longrightarrow> never_breaks es s \<Longrightarrow> run es s = Inr s' \<Longrightarrow> open_tracked s'"
  by (induction es arbitrary: s) (auto split: sum.splits dest: oinv_step)

lemma oinv_initial: "open_tracked (initial me d tr w th)"
  by (simp add: oinv_defs initial_def)



lemma smo_refl [simp]: "sends_at_most_one s s"
  by (simp add: sends_at_most_one_def)














lemma cancel_pending_subset:
  "(i, h) \<in> set (api_pending (cancel s)) \<Longrightarrow>
     (i, h) \<in> set (api_pending s) \<and> (m_requestId s \<noteq> 0 \<longrightarrow> i \<noteq> m_requestId s)
     \<and> (m_prolongId s \<noteq> 0 \<longrightarrow> i \<noteq> m_prolongId s)"
  by (auto simp: cancel_def api_cancel_def Let_def split: if_splits)





text \<open>
  What the invariant leaves out: the done handler of a toggle request zeroes
  \<open>_requestId\<close> without cancelling the request it names.  In the example the first open
  request is then no longer cancelled by the second open, and two open requests are
  pending.
\<close>

lemma toggle_done_forgets_open_request:
  "map_sum id api_pending (run ex_toggle_between_opens ex_initial)
     = Inr [(1, RequestWebView_handler ex_button), (3, GetAttachMenuBots_handler),
            (4, RequestWebView_handler ex_button)]
   \<and> \<not> never_breaks ex_toggle_between_opens ex_initial"
  by (simp add: ex_toggle_between_opens_def ex_defs run_defs2)

subsection \<open>\<open>cancel\<close>\<close>

lemma cancel_fields:
  "m_requestId (cancel s) = 0" "m_prolongId (cancel s) = 0" "m_panel (cancel s) = None"
  "m_peer (cancel s) = None" "m_bot (cancel s) = None" "m_botUsername (cancel s) = []"
  "m_startCommand (cancel s) = []" "trace (cancel s) = trace s"
  "self (cancel s) \<notin> ActiveWebViews (cancel s)"
  by (simp_all add: cancel_def api_cancel_def Let_def)

lemma cancel_when_idle:
  "m_requestId t = 0 \<Longrightarrow> m_prolongId t = 0 \<Longrightarrow>
     cancel t = t\<lparr>ActiveWebViews := ActiveWebViews t - {self t}, m_requestId := 0,
                 m_prolongId := 0, m_panel := None, m_peer := None, m_bot := None,
                 m_botUsername := [], m_startCommand := []\<rparr>"
  by (simp add: cancel_def api_cancel_def Let_def)

lemma cancel_idem: "cancel (cancel s) = cancel s"
proof -
  let ?t = "cancel s"
  have "cancel ?t = ?t\<lparr>ActiveWebViews := ActiveWebViews ?t - {self ?t}, m_requestId := 0,
                 m_prolongId := 0, m_panel := None, m_peer := None, m_bot := None,
                 m_botUsername := [], m_startCommand := []\<rparr>"
    by (rule cancel_when_idle) (simp_all add: cancel_fields)
  also have "\<dots> = ?t"
    by (rule state.equality) (simp_all add: cancel_fields)
  finally show ?thesis .
qed

lemma cancel_pending:
  "set (api_pending (cancel s)) \<subseteq> set (api_pending s)"
  "m_requestId s \<noteq> 0 \<Longrightarrow> m_requestId s \<notin> fst ` set (api_pending (cancel s))"
  "m_prolongId s \<noteq> 0 \<Longrightarrow> m_prolongId s \<notin> fst ` set (api_pending (cancel s))"
proof -
  show "set (api_pending (cancel s)) \<subseteq> set (api_pending s)"
    using cancel_pending_subset [of _ _ s] by auto
  show "m_requestId s \<noteq> 0 \<Longrightarrow> m_requestId s \<notin> fst ` set (api_pending (cancel s))"
    using cancel_pending_subset [of "m_requestId s" _ s] by force
  show "m_prolongId s \<noteq> 0 \<Longrightarrow> m_prolongId s \<notin> fst ` set (api_pending (cancel s))"
    using cancel_pending_subset [of "m_prolongId s" _ s] by force
qed

lemma cancel_effects:
  "m_requestId (cancel s) = 0 \<and> m_prolongId (cancel s) = 0
   \<and> (m_requestId s \<noteq> 0 \<longrightarrow> m_requestId s \<notin> fst ` set (api_pending (cancel s)))
   \<and> (m_prolongId s \<noteq> 0 \<longrightarrow> m_prolongId s \<notin> fst ` set (api_pending (cancel s)))
   \<and> set (api_pending (cancel s)) \<subseteq> set (api_pending s)
   \<and> m_panel (cancel s) = None
   \<and> m_peer (cancel s) = None \<and> m_bot (cancel s) = None
   \<and> m_botUsername (cancel s) = [] \<and> m_startCommand (cancel s) = []
   \<and> self (cancel s) \<notin> ActiveWebViews (cancel s)
   \<and> trace (cancel s) = trace s
   \<and> cancel (cancel s) = cancel s"
  using cancel_fields [of s] cancel_idem [of s] cancel_pending [of s] by blast

lemma idle_no_open:
  "open_idle s \<Longrightarrow> (i, h) \<in> set (api_pending s) \<Longrightarrow> \<not> is_open_handler h"
  by (fastforce simp: oinv_defs)

lemma cancel_no_prolong:
  assumes "keepalive_inv s"
  shows "(i, ProlongWebView_handler) \<notin> set (api_pending (cancel s))"
proof
  assume "(i, ProlongWebView_handler) \<in> set (api_pending (cancel s))"
  from cancel_pending_subset [OF this]
  have m: "(i, ProlongWebView_handler) \<in> set (api_pending s)"
    and n: "m_prolongId s \<noteq> 0 \<longrightarrow> i \<noteq> m_prolongId s"
    by simp_all
  from assms m have "i = m_prolongId s" "0 < i"
    by (auto simp: kinv_defs)
  with n show False by simp
qed

text \<open>
  What \<open>cancel\<close> does.  It is a total function of the state, so it can be
  called in every state, and the event that calls it never fails.  After it
  \<open>_requestId\<close> and \<open>_prolongId\<close> are zero and the requests they named are not pending,
  nothing new is pending, there is no panel, the peer, the bot, the username and the
  start parameter are cleared, the orchestrator is not in \<open>ActiveWebViews\<close>, nothing was
  sent, and calling it a second time changes nothing.  No prolong request is pending
  afterwards in any state reached from construction.  No open or resolve request is
  pending afterwards when every pending one was the one \<open>_requestId\<close> named, as in every
  run from construction in which no consent prompt is accepted and no toggle request
  succeeds while \<open>_requestId\<close> is set.
\<close>

lemma cancel_clears_session:
  "step Call_cancel s = Inr (cancel s)
   \<and> m_requestId (cancel s) = 0 \<and> m_prolongId (cancel s) = 0
   \<and> (m_requestId s \<noteq> 0 \<longrightarrow> m_requestId s \<notin> fst ` set (api_pending (cancel s)))
   \<and> (m_prolongId s \<noteq> 0 \<longrightarrow> m_prolongId s \<notin> fst ` set (api_pending (cancel s)))
   \<and> set (api_pending (cancel s)) \<subseteq> set (api_pending s)
   \<and> m_panel (cancel s) = None
   \<and> m_peer (cancel s) = None \<and> m_bot (cancel s) = None
   \<and> m_botUsername (cancel s) = [] \<and> m_startCommand (cancel s) = []
   \<and> self (cancel s) \<notin> ActiveWebViews (cancel s)
   \<and> trace (cancel s) = trace s
   \<and> cancel (cancel s) = cancel s
   \<and> (open_tracked s \<longrightarrow>
        (\<forall>i h. (i, h) \<in> set (api_pending (cancel s)) \<longrightarrow> \<not> is_open_handler h))
   \<and> (keepalive_inv s \<longrightarrow>
        (\<forall>i. (i, ProlongWebView_handler) \<notin> set (api_pending (cancel s))))
   \<and> (run es (initial me d tr w th) = Inr s \<longrightarrow> keepalive_inv s)
   \<and> (never_breaks es (initial me d tr w th) \<and> run es (initial me d tr w th) = Inr s
        \<longrightarrow> open_tracked s)"
proof -
  have tracked: "open_tracked s \<longrightarrow>
        (\<forall>i h. (i, h) \<in> set (api_pending (cancel s)) \<longrightarrow> \<not> is_open_handler h)"
  proof (intro impI allI)
    fix i h
    assume "open_tracked s" and m: "(i, h) \<in> set (api_pending (cancel s))"
    then have "open_idle (cancel s)" by simp
    from this m show "\<not> is_open_handler h" by (rule idle_no_open)
  qed
  have prolong: "keepalive_inv s \<longrightarrow>
        (\<forall>i. (i, ProlongWebView_handler) \<notin> set (api_pending (cancel s)))"
    by (simp add: cancel_no_prolong)
  have k: "run es (initial me d tr w th) = Inr s \<longrightarrow> keepalive_inv s"
    using kinv_initial by (blast intro: kinv_run)
  have t: "never_breaks es (initial me d tr w th) \<and> run es (initial me d tr w th) = Inr s
        \<longrightarrow> open_tracked s"
    using oinv_initial by (blast intro: oinv_run)
  have "step Call_cancel s = Inr (cancel s)" by simp
  with cancel_effects [of s] tracked prolong k t show ?thesis by blast
qed

text \<open>
  C4.  \<open>cancel\<close> cancels the request \<open>_requestId\<close> names and no other, so an open
  request that \<open>_requestId\<close> no longer names stays pending after it.  In the second
  example a toggle request succeeds while an open request is pending, and its done
  handler zeroes \<open>_requestId\<close>; in the first the consent prompt is accepted while an
  open request is pending, and the continuation's request takes its place in
  \<open>_requestId\<close>.  In both, the earlier open request is still pending after \<open>cancel\<close>,
  and its answer fails the \<open>Expects\<close> of \<open>show\<close>.
\<close>

theorem cancel_leaves_open_request_pending:
  "map_sum id api_pending (run (ex_consent_race_events @ [Call_cancel]) ex_initial2)
     = Inr [(2, GetAttachMenuBots_handler),
            (3, RequestWebView_handler \<lparr>b_text = [], b_startCommand = [], b_url = []\<rparr>)]
   \<and> run (ex_consent_race_events
            @ [Call_cancel, Done 3 (MTPwebViewResultUrl 42 ''https://u'')]) ex_initial2
     = Inl ExpectsFailed
   \<and> map_sum id api_pending (run ex_toggle_then_cancel ex_initial)
     = Inr [(1, RequestWebView_handler ex_button), (3, GetAttachMenuBots_handler)]
   \<and> run (ex_toggle_then_cancel @ [Done 1 (MTPwebViewResultUrl 42 ''https://u'')]) ex_initial
     = Inl ExpectsFailed"
  by (simp add: ex_consent_race_events_def ex_toggle_then_cancel_def ex_defs ex_defs2 run_defs2
        confirmOpen_callback_def hideLayer_def show_box_def)

subsection \<open>\<open>toggleInMenu\<close>\<close>

lemma request_counts:
  "request None p u button s = Inr s' \<Longrightarrow>
     snapshot_requests (trace s') = snapshot_requests (trace s)
     \<and> toggle_requests (trace s') = toggle_requests (trace s)
     \<and> m_botsRequestId s' = m_botsRequestId s"
  by (auto simp: request_def request_button_def cancel_def api_cancel_def api_request_def
        emit_def snapshot_requests_def toggle_requests_def Let_def
        split: if_splits option.splits)

lemma toggle_callback_run_counts:
  "toggle_callback_run cb s = Inr s' \<Longrightarrow>
     snapshot_requests (trace s') = snapshot_requests (trace s)
     \<and> toggle_requests (trace s') = toggle_requests (trace s)
     \<and> m_botsRequestId s' = m_botsRequestId s
     \<and> last (trace s') = ShowMultilineToast
          (case cb of RemoveFromMenu_callback \<Rightarrow> lng_bot_remove_from_menu_done
           | ConfirmAddToMenu_callback l \<Rightarrow> lng_bot_add_to_menu_done)"
proof (cases cb)
  case RemoveFromMenu_callback
  assume "toggle_callback_run cb s = Inr s'"
  with RemoveFromMenu_callback show ?thesis
    by (auto simp: emit_def snapshot_requests_def toggle_requests_def)
next
  case (ConfirmAddToMenu_callback l)
  assume r: "toggle_callback_run cb s = Inr s'"
  show ?thesis
  proof (cases l)
    case None
    with r ConfirmAddToMenu_callback show ?thesis
      by (auto simp: emit_def snapshot_requests_def toggle_requests_def)
  next
    case (Some ol)
    obtain cp b sc where ol: "ol = Open_lambda cp b sc" by (cases ol)
    show ?thesis
    proof (cases cp)
      case None
      with r ConfirmAddToMenu_callback Some ol show ?thesis
        by (auto simp: emit_def snapshot_requests_def toggle_requests_def)
    next
      case (Some p)
      with r ConfirmAddToMenu_callback \<open>l = Some ol\<close> ol
      obtain u s1 where "request None p u \<lparr>b_text = [], b_startCommand = sc, b_url = []\<rparr> s = Inr s1"
        and s': "s' = emit (ShowMultilineToast lng_bot_add_to_menu_done) s1"
        by (auto split: option.splits sum.splits)
      from request_counts [OF this(1)] s' ConfirmAddToMenu_callback show ?thesis
        by (auto simp: emit_def snapshot_requests_def toggle_requests_def)
    qed
  qed
qed

lemma requestBots_counts:
  "snapshot_requests (trace (requestBots s))
     = snapshot_requests (trace s) + (if m_botsRequestId s = 0 then 1 else 0)
   \<and> toggle_requests (trace (requestBots s)) = toggle_requests (trace s)
   \<and> m_botsRequestId (requestBots s) \<noteq> 0"
  by (simp add: requestBots_def api_request_def snapshot_requests_def toggle_requests_def)

lemma toggle_fail_effects:
  assumes h: "map_of (api_pending s) i = Some (ToggleBotInAttachMenu_handler cb)"
  shows "\<exists>s'. step (Fail i e) s = Inr s'
     \<and> s' = cancel (api_complete i s)
     \<and> m_requestId s' = 0 \<and> m_prolongId s' = 0
     \<and> m_panel s' = None \<and> m_peer s' = None \<and> m_bot s' = None
     \<and> m_botUsername s' = [] \<and> m_startCommand s' = []
     \<and> self s' \<notin> ActiveWebViews s'
     \<and> trace s' = trace s
     \<and> set (api_pending s') \<subseteq> set (api_pending s)
     \<and> i \<notin> fst ` set (api_pending s')
     \<and> (m_requestId s \<noteq> 0 \<longrightarrow> m_requestId s \<notin> fst ` set (api_pending s'))
     \<and> (m_prolongId s \<noteq> 0 \<longrightarrow> m_prolongId s \<notin> fst ` set (api_pending s'))
     \<and> (open_tracked s \<longrightarrow>
          (\<forall>j g. (j, g) \<in> set (api_pending s') \<longrightarrow> \<not> is_open_handler g))"
proof -
  let ?c = "api_complete i s"
  have st: "step (Fail i e) s = Inr (cancel ?c)"
    using h by (simp add: toggleInMenu_fail_def)
  have c: "m_requestId ?c = m_requestId s" "m_prolongId ?c = m_prolongId s"
    "trace ?c = trace s" "set (api_pending ?c) \<subseteq> set (api_pending s)"
    "i \<notin> fst ` set (api_pending ?c)"
    by (auto simp: api_complete_def)
  have sub: "set (api_pending (cancel ?c)) \<subseteq> set (api_pending ?c)"
    using cancel_effects [of ?c] by blast
  have gone: "i \<notin> fst ` set (api_pending (cancel ?c))"
    using sub c(5) by blast
  have tracked: "open_tracked s \<longrightarrow>
          (\<forall>j g. (j, g) \<in> set (api_pending (cancel ?c)) \<longrightarrow> \<not> is_open_handler g)"
  proof (intro impI allI)
    fix j g
    assume "open_tracked s" and m: "(j, g) \<in> set (api_pending (cancel ?c))"
    then have "open_idle (cancel ?c)" by simp
    from this m show "\<not> is_open_handler g" by (rule idle_no_open)
  qed
  from st cancel_effects [of ?c] c sub gone tracked show ?thesis
    by (simp only: ) blast
qed

text \<open>
  C7.  When a pending toggle request succeeds, its done handler zeroes \<open>_requestId\<close>,
  calls \<open>requestBots\<close> once and then the callback it was given.  So a snapshot request
  is in flight afterwards, exactly one snapshot request was sent unless one was already
  in flight (then none), no toggle request is sent again, and the callback's toast is
  the last effect.  When the toggle request fails, the handler calls \<open>cancel\<close>:
  afterwards \<open>_requestId\<close> and \<open>_prolongId\<close> are zero and the requests they named are not
  pending, there is no panel and no session context, the orchestrator is not in
  \<open>ActiveWebViews\<close>, nothing was sent and nothing new is pending, so the toggle is not
  tried again; and no open or resolve request is pending when every pending one was the
  one \<open>_requestId\<close> named.
\<close>

theorem toggle_completion:
  "map_of (api_pending s) i = Some (ToggleBotInAttachMenu_handler cb) \<Longrightarrow>
   step (Done i MTPbool) s
     = (case cb of
          None \<Rightarrow> Inr (requestBots ((api_complete i s)\<lparr>m_requestId := 0\<rparr>))
        | Some c \<Rightarrow> toggle_callback_run c (requestBots ((api_complete i s)\<lparr>m_requestId := 0\<rparr>)))
   \<and> (\<forall>s'. step (Done i MTPbool) s = Inr s' \<longrightarrow>
          snapshot_requests (trace s')
            = snapshot_requests (trace s) + (if m_botsRequestId s = 0 then 1 else 0)
          \<and> m_botsRequestId s' \<noteq> 0
          \<and> toggle_requests (trace s') = toggle_requests (trace s)
          \<and> (\<forall>c. cb = Some c \<longrightarrow>
                last (trace s') = ShowMultilineToast
                  (case c of RemoveFromMenu_callback \<Rightarrow> lng_bot_remove_from_menu_done
                   | ConfirmAddToMenu_callback l \<Rightarrow> lng_bot_add_to_menu_done)))
   \<and> (\<exists>s'. step (Fail i e) s = Inr s'
         \<and> s' = cancel (api_complete i s)
         \<and> m_requestId s' = 0 \<and> m_prolongId s' = 0
         \<and> m_panel s' = None \<and> m_peer s' = None \<and> m_bot s' = None
         \<and> m_botUsername s' = [] \<and> m_startCommand s' = []
         \<and> self s' \<notin> ActiveWebViews s'
         \<and> trace s' = trace s
         \<and> set (api_pending s') \<subseteq> set (api_pending s)
         \<and> i \<notin> fst ` set (api_pending s')
         \<and> (m_requestId s \<noteq> 0 \<longrightarrow> m_requestId s \<notin> fst ` set (api_pending s'))
         \<and> (m_prolongId s \<noteq> 0 \<longrightarrow> m_prolongId s \<notin> fst ` set (api_pending s'))
         \<and> (open_tracked s \<longrightarrow>
              (\<forall>j g. (j, g) \<in> set (api_pending s') \<longrightarrow> \<not> is_open_handler g)))"
proof -
  assume h: "map_of (api_pending s) i = Some (ToggleBotInAttachMenu_handler cb)"
  let ?s1 = "requestBots ((api_complete i s)\<lparr>m_requestId := 0\<rparr>)"
  have eq: "step (Done i MTPbool) s
     = (case cb of None \<Rightarrow> Inr ?s1 | Some c \<Rightarrow> toggle_callback_run c ?s1)"
    using h by (simp add: toggleInMenu_done_def Let_def)
  have s1: "snapshot_requests (trace ?s1)
              = snapshot_requests (trace s) + (if m_botsRequestId s = 0 then 1 else 0)
            \<and> toggle_requests (trace ?s1) = toggle_requests (trace s)
            \<and> m_botsRequestId ?s1 \<noteq> 0"
    using requestBots_counts [of "(api_complete i s)\<lparr>m_requestId := 0\<rparr>"]
    by (simp add: api_complete_def)
  have succ: "\<forall>s'. step (Done i MTPbool) s = Inr s' \<longrightarrow>
          snapshot_requests (trace s')
            = snapshot_requests (trace s) + (if m_botsRequestId s = 0 then 1 else 0)
          \<and> m_botsRequestId s' \<noteq> 0
          \<and> toggle_requests (trace s') = toggle_requests (trace s)
          \<and> (\<forall>c. cb = Some c \<longrightarrow>
                last (trace s') = ShowMultilineToast
                  (case c of RemoveFromMenu_callback \<Rightarrow> lng_bot_remove_from_menu_done
                   | ConfirmAddToMenu_callback l \<Rightarrow> lng_bot_add_to_menu_done))"
  proof (intro allI impI)
    fix s'
    assume r: "step (Done i MTPbool) s = Inr s'"
    show "snapshot_requests (trace s')
            = snapshot_requests (trace s) + (if m_botsRequestId s = 0 then 1 else 0)
          \<and> m_botsRequestId s' \<noteq> 0
          \<and> toggle_requests (trace s') = toggle_requests (trace s)
          \<and> (\<forall>c. cb = Some c \<longrightarrow>
                last (trace s') = ShowMultilineToast
                  (case c of RemoveFromMenu_callback \<Rightarrow> lng_bot_remove_from_menu_done
                   | ConfirmAddToMenu_callback l \<Rightarrow> lng_bot_add_to_menu_done))"
    proof (cases cb)
      case None
      with r eq have "s' = ?s1" by simp
      with s1 None show ?thesis by simp
    next
      case (Some c)
      with r eq have "toggle_callback_run c ?s1 = Inr s'" by simp
      from toggle_callback_run_counts [OF this] s1 Some show ?thesis by simp
    qed
  qed
  from eq succ toggle_fail_effects [OF h, of e] show ?thesis by blast
qed

theorem toggle_completion_witness:
  "map_of (api_pending ex_toggling) 2
     = Some (ToggleBotInAttachMenu_handler (Some RemoveFromMenu_callback))
   \<and> api_pending ex_toggling
     = [(1, RequestWebView_handler ex_button),
        (2, ToggleBotInAttachMenu_handler (Some RemoveFromMenu_callback))]
   \<and> m_bot ex_toggling = Some 5 \<and> m_requestId ex_toggling = 1
   \<and> open_tracked ex_toggling
   \<and> map_sum id trace (step (Done 2 MTPbool) ex_toggling)
       = Inr [Send 2 (MTPmessages_ToggleBotInAttachMenu 5 False),
              Send 3 (MTPmessages_GetAttachMenuBots 0),
              ShowMultilineToast lng_bot_remove_from_menu_done]
   \<and> (\<exists>s'. step (Fail 2 \<lparr>error_type = ''X'', error_code = 500\<rparr>) ex_toggling = Inr s'
         \<and> m_bot s' = None \<and> m_requestId s' = 0
         \<and> 1 \<notin> fst ` set (api_pending s')
         \<and> (\<forall>j g. (j, g) \<in> set (api_pending s') \<longrightarrow> \<not> is_open_handler g)
         \<and> trace s' = [Send 2 (MTPmessages_ToggleBotInAttachMenu 5 False)])"
proof -
  have h: "map_of (api_pending ex_toggling) 2
             = Some (ToggleBotInAttachMenu_handler (Some RemoveFromMenu_callback))"
    and p: "api_pending ex_toggling
     = [(1, RequestWebView_handler ex_button),
        (2, ToggleBotInAttachMenu_handler (Some RemoveFromMenu_callback))]"
    and f: "m_bot ex_toggling = Some 5" "m_requestId ex_toggling = 1"
      "trace ex_toggling = [Send 2 (MTPmessages_ToggleBotInAttachMenu 5 False)]"
    by (simp_all add: ex_toggling_def removeFromMenu_def toggleInMenu_def api_request_def
          ex_opening_def ex_defs)
  have "open_tracked ex_opening"
    by (simp add: oinv_defs ex_opening_def ex_defs)
  then have t: "open_tracked ex_toggling"
    by (simp add: ex_toggling_def)
  have d: "map_sum id trace (step (Done 2 MTPbool) ex_toggling)
       = Inr [Send 2 (MTPmessages_ToggleBotInAttachMenu 5 False),
              Send 3 (MTPmessages_GetAttachMenuBots 0),
              ShowMultilineToast lng_bot_remove_from_menu_done]"
    by (simp add: ex_toggling_def ex_opening_def ex_defs run_defs2)
  from toggle_completion [OF h, of "\<lparr>error_type = ''X'', error_code = 500\<rparr>"] h p f t d
  show ?thesis
    by (simp only: ) force
qed

end
